theory Spec2Isabelle
  imports Complex_Main "HOL-Library.Word" "HOL-Library.Log_Nat"
begin

unbundle bit_operations_syntax

section \<open>Values\<close>

text \<open>
  The virtual machine of \<^verbatim>\<open>vm.go\<close> works on Go values of the interface type
  \<^verbatim>\<open>Value\<close>.  A Go \<^verbatim>\<open>float64\<close> is modelled by its IEEE-754 class: not-a-number, an
  infinity with its sign bit, or a finite number given by its sign bit and the magnitude
  as a rational (the magnitude is read through \<open>abs\<close>, and both zeros are finite numbers
  of magnitude 0).  Go's \<^verbatim>\<open>int64\<close> and \<^verbatim>\<open>uint32\<close> are words.
\<close>

datatype float64 = FNaN | FInf bool | FFin bool rat

type_synonym int64 = "64 word"
type_synonym uint32 = "32 word"

text \<open>Objects are known to the machine by identity only.\<close>

type_synonym Object = nat

datatype Value =
    valueUndefined
  | valueNull
  | valueBool bool
  | valueInt int64
  | valueInt64 int64
  | valueFloat float64
  | valueString string
  | valueObject Object
  | valueUnresolved string
  | memberUnresolved string

text \<open>
  A slot of a Go \<^verbatim>\<open>[]Value\<close> may hold the nil interface value, which is how an
  uninitialized let/const slot is marked: \<open>None\<close> is Go's \<^verbatim>\<open>nil\<close>.
\<close>

type_synonym valueStack = "Value option list"

text \<open>
  Modelled from the spec: the singletons \<^verbatim>\<open>_undefined\<close>, \<^verbatim>\<open>valueTrue\<close>,
  \<^verbatim>\<open>valueFalse\<close>, \<^verbatim>\<open>_NaN\<close>, \<^verbatim>\<open>_positiveInf\<close>, \<^verbatim>\<open>_negativeInf\<close>,
  \<^verbatim>\<open>_positiveZero\<close> and \<^verbatim>\<open>_negativeZero\<close> are declared outside \<^verbatim>\<open>vm.go\<close>; the
  data model of the spec lists them as the canonical double-float singletons for NaN, +0, -0,
  +Infinity and -Infinity.
\<close>

definition v_undefined :: Value where "v_undefined = valueUndefined"
definition valueTrue :: Value where "valueTrue = valueBool True"
definition valueFalse :: Value where "valueFalse = valueBool False"
definition v_NaN :: Value where "v_NaN = valueFloat FNaN"
definition v_positiveInf :: Value where "v_positiveInf = valueFloat (FInf False)"
definition v_negativeInf :: Value where "v_negativeInf = valueFloat (FInf True)"
definition v_positiveZero :: Value where "v_positiveZero = valueFloat (FFin False 0)"
definition v_negativeZero :: Value where "v_negativeZero = valueFloat (FFin True 0)"

text \<open>
  Modelled from the spec: \<^verbatim>\<open>nilSafe\<close> is declared outside \<^verbatim>\<open>vm.go\<close>; it replaces
  the nil interface value by undefined.
\<close>

fun nilSafe :: "Value option \<Rightarrow> Value" where
  "nilSafe None = v_undefined"
| "nilSafe (Some v) = v"

section \<open>Panics\<close>

text \<open>
  Every Go \<^verbatim>\<open>panic\<close> of the source is a value of \<open>panicval\<close>.  The constructors
  follow the dynamic types that \<^verbatim>\<open>vm.try\<close> tells apart: \<open>thrownValue\<close> is a panic
  with a \<^verbatim>\<open>Value\<close> (a script throw, or an error object of the runtime),
  \<open>thrownException\<close> a panic with an \<^verbatim>\<open>*Exception\<close> that carries the value.
  \<^verbatim>\<open>errAccessBeforeInit\<close> and \<^verbatim>\<open>errAssignToConst\<close> are package-level values declared
  outside \<^verbatim>\<open>vm.go\<close>; they are kept as constructors of their own.  \<open>goPanic\<close> stands
  for every other Go panic (a string, or a run-time error such as an index out of range).
  A function that may panic returns a sum with the panic on the left.
\<close>

datatype panicval =
    thrownValue Value
  | thrownException Value
  | typeError string
  | referenceError string
  | rangeError string
  | InterruptedError
  | uncatchableException
  | errAccessBeforeInit
  | errAssignToConst
  | goPanic string

definition indexOutOfRange :: panicval where
  "indexOutOfRange = goPanic ''index out of range''"

section \<open>Scope records\<close>

text \<open>
  The bit masks \<^verbatim>\<open>maskVar\<close>, \<^verbatim>\<open>maskConst\<close>, \<^verbatim>\<open>maskStrict\<close>, \<^verbatim>\<open>maskDeletable\<close> and
  \<^verbatim>\<open>maskTyp\<close> are declared outside \<^verbatim>\<open>vm.go\<close>; they are parameters of the model.
\<close>

record masks =
  maskVar :: uint32
  maskConst :: uint32
  maskStrict :: uint32
  maskDeletable :: uint32
  maskTyp :: uint32

text \<open>
  \<^verbatim>\<open>type stash struct\<close>.  The Go map \<^verbatim>\<open>names\<close> is an association list with one
  entry per key (\<open>None\<close> is the nil map), so that \<^verbatim>\<open>len(s.names)\<close> is its length.
  The pointer \<^verbatim>\<open>outer\<close> is the address of the enclosing scope record.
\<close>

record stash =
  values_s :: valueStack
  extraArgs :: "Value list"
  names :: "(string \<times> uint32) list option"
  obj :: "Object option"
  outer :: "nat option"
  variable :: bool

text \<open>\<^verbatim>\<open>idx, exists := s.names[name]\<close>; a nil map has no entry.\<close>

fun names_lookup :: "(string \<times> uint32) list option \<Rightarrow> string \<Rightarrow> uint32 option" where
  "names_lookup None name = None"
| "names_lookup (Some m) name = map_of m name"

text \<open>\<^verbatim>\<open>len(s.names)\<close>.\<close>

fun names_len :: "(string \<times> uint32) list option \<Rightarrow> nat" where
  "names_len None = 0"
| "names_len (Some m) = length m"

text \<open>\<^verbatim>\<open>func (s *stash) createBinding(name unistring.String, deletable bool)\<close>\<close>

definition createBinding :: "masks \<Rightarrow> stash \<Rightarrow> string \<Rightarrow> bool \<Rightarrow> stash" where
  "createBinding M s name deletable =
     (let s1 = (if names s = None then s\<lparr>names := Some []\<rparr> else s) in
      (case names_lookup (names s1) name of
         Some _ \<Rightarrow> s1
       | None \<Rightarrow>
           (let idx = (word_of_nat (names_len (names s1)) :: uint32) OR maskVar M;
                idx' = (if deletable then idx OR maskDeletable M else idx)
            in s1\<lparr>names := Some (the (names s1) @ [(name, idx')]),
                  values_s := values_s s1 @ [Some v_undefined]\<rparr>)))"

text \<open>\<^verbatim>\<open>func (s *stash) createLexBinding(name unistring.String, isConst bool)\<close>\<close>

definition createLexBinding :: "masks \<Rightarrow> stash \<Rightarrow> string \<Rightarrow> bool \<Rightarrow> stash" where
  "createLexBinding M s name isConst =
     (let s1 = (if names s = None then s\<lparr>names := Some []\<rparr> else s) in
      (case names_lookup (names s1) name of
         Some _ \<Rightarrow> s1
       | None \<Rightarrow>
           (let idx = (word_of_nat (names_len (names s1)) :: uint32);
                idx' = (if isConst then idx OR (maskConst M OR maskStrict M) else idx)
            in s1\<lparr>names := Some (the (names s1) @ [(name, idx')]),
                  values_s := values_s s1 @ [None]\<rparr>)))"

text \<open>Reading a slice element; Go panics when the index is out of range.\<close>

definition slot_read :: "valueStack \<Rightarrow> nat \<Rightarrow> panicval + Value option" where
  "slot_read vs i = (if i < length vs then Inr (vs ! i) else Inl indexOutOfRange)"

definition slot_write :: "valueStack \<Rightarrow> nat \<Rightarrow> Value option \<Rightarrow> panicval + valueStack" where
  "slot_write vs i v = (if i < length vs then Inr (vs[i := v]) else Inl indexOutOfRange)"

text \<open>
  The object system is outside \<^verbatim>\<open>vm.go\<close>; the operations the scope code calls on an
  object are parameters.
\<close>

record objops =
  hasPropertyStr :: "Object \<Rightarrow> string \<Rightarrow> bool"
  hasOwnPropertyStr :: "Object \<Rightarrow> string \<Rightarrow> bool"
  getStr :: "Object \<Rightarrow> string \<Rightarrow> Value option"
  getUnscopables :: "Object \<Rightarrow> Value option"
  ToBoolean :: "Value \<Rightarrow> bool"
  setOwnStr :: "Object \<Rightarrow> string \<Rightarrow> Value option \<Rightarrow> bool \<Rightarrow> panicval option"

text \<open>\<^verbatim>\<open>func stashObjHas(obj *Object, name unistring.String) bool\<close>\<close>

definition stashObjHas :: "objops \<Rightarrow> Object \<Rightarrow> string \<Rightarrow> bool" where
  "stashObjHas K ob name =
     (if hasPropertyStr K ob name then
        (case getUnscopables K ob of
           Some (valueObject unscopables) \<Rightarrow>
             (case getStr K unscopables name of
                Some b \<Rightarrow> \<not> ToBoolean K b
              | None \<Rightarrow> True)
         | _ \<Rightarrow> True)
      else False)"

text \<open>
  \<^verbatim>\<open>func (s *stash) getByName(name unistring.String) (v Value, exists bool)\<close>.
  The Go result pair is returned as it is: the value (possibly nil) and the flag.
\<close>

definition getByName :: "masks \<Rightarrow> objops \<Rightarrow> stash \<Rightarrow> string \<Rightarrow> panicval + (Value option \<times> bool)" where
  "getByName M K s name =
     (case obj s of
        Some ob \<Rightarrow>
          (if stashObjHas K ob name then Inr (Some (nilSafe (getStr K ob name)), True)
           else Inr (None, False))
      | None \<Rightarrow>
          (case names_lookup (names s) name of
             Some idx \<Rightarrow>
               (case slot_read (values_s s) (unat (idx AND NOT (maskTyp M))) of
                  Inl e \<Rightarrow> Inl e
                | Inr None \<Rightarrow>
                    (if idx AND maskVar M = 0 then Inl errAccessBeforeInit
                     else Inr (Some v_undefined, True))
                | Inr (Some v) \<Rightarrow> Inr (Some v, True))
           | None \<Rightarrow> Inr (None, False)))"

text \<open>
  References.  A \<^verbatim>\<open>stashRef\<close> holds the name and the index into the slice it points
  to; the slice itself (\<^verbatim>\<open>*r.v\<close>) is passed to its methods and returned updated.
\<close>

record stashRef =
  ref_n :: string
  ref_idx :: nat

datatype ref =
    StashRef stashRef
  | StashRefLex stashRef
  | StashRefConst stashRef bool
  | ObjRef Object string bool
  | UnresolvedRef string

text \<open>\<^verbatim>\<open>func (r *stashRef) get() Value\<close> and \<^verbatim>\<open>set\<close>.\<close>

definition stashRef_get :: "stashRef \<Rightarrow> valueStack \<Rightarrow> panicval + Value" where
  "stashRef_get r vs = (case slot_read vs (ref_idx r) of Inl e \<Rightarrow> Inl e | Inr v \<Rightarrow> Inr (nilSafe v))"

definition stashRef_set :: "stashRef \<Rightarrow> Value option \<Rightarrow> valueStack \<Rightarrow> panicval + valueStack" where
  "stashRef_set r v vs = slot_write vs (ref_idx r) v"

text \<open>\<^verbatim>\<open>func (r *stashRefLex) get() Value\<close>\<close>

definition stashRefLex_get :: "stashRef \<Rightarrow> valueStack \<Rightarrow> panicval + Value" where
  "stashRefLex_get r vs =
     (case slot_read vs (ref_idx r) of
        Inl e \<Rightarrow> Inl e
      | Inr None \<Rightarrow> Inl errAccessBeforeInit
      | Inr (Some v) \<Rightarrow> Inr v)"

text \<open>\<^verbatim>\<open>func (r *stashRefLex) set(v Value)\<close>\<close>

definition stashRefLex_set :: "stashRef \<Rightarrow> Value option \<Rightarrow> valueStack \<Rightarrow> panicval + valueStack" where
  "stashRefLex_set r v vs =
     (case slot_read vs (ref_idx r) of
        Inl e \<Rightarrow> Inl e
      | Inr None \<Rightarrow> Inl errAccessBeforeInit
      | Inr (Some _) \<Rightarrow> slot_write vs (ref_idx r) v)"

text \<open>\<^verbatim>\<open>func (r *stashRefConst) set(v Value)\<close>\<close>

definition stashRefConst_set :: "bool \<Rightarrow> Value option \<Rightarrow> valueStack \<Rightarrow> panicval + valueStack" where
  "stashRefConst_set strictConst v vs = (if strictConst then Inl errAssignToConst else Inr vs)"

text \<open>
  Modelled from the spec: \<^verbatim>\<open>Runtime.throwReferenceError\<close> is declared outside
  \<^verbatim>\<open>vm.go\<close>; it raises the unresolved-reference (not defined) error for the name.
\<close>

definition throwReferenceError :: "string \<Rightarrow> panicval" where
  "throwReferenceError name = referenceError (name @ '' is not defined'')"

text \<open>
  The method \<^verbatim>\<open>get\<close> of the interface \<^verbatim>\<open>ref\<close>, dispatched on the variant.
  \<^verbatim>\<open>stashRefConst\<close> embeds \<^verbatim>\<open>stashRefLex\<close> and inherits its \<^verbatim>\<open>get\<close>.
\<close>

fun ref_get :: "objops \<Rightarrow> ref \<Rightarrow> valueStack \<Rightarrow> panicval + Value option" where
  "ref_get K (StashRef r) vs = map_sum id Some (stashRef_get r vs)"
| "ref_get K (StashRefLex r) vs = map_sum id Some (stashRefLex_get r vs)"
| "ref_get K (StashRefConst r strictConst) vs = map_sum id Some (stashRefLex_get r vs)"
| "ref_get K (ObjRef base name strict) vs = Inr (getStr K base name)"
| "ref_get K (UnresolvedRef name) vs = Inl (throwReferenceError name)"

text \<open>
  \<^verbatim>\<open>func (r *objRef) set(v Value)\<close>.  The write goes to the object system, which may
  raise (\<open>setOwnStr\<close> returns the panic, if any); the slice is not touched.
\<close>

definition objRef_set :: "objops \<Rightarrow> Object \<Rightarrow> string \<Rightarrow> bool \<Rightarrow> Value option \<Rightarrow> valueStack \<Rightarrow> panicval + valueStack" where
  "objRef_set K base name strict v vs =
     (if strict \<and> \<not> hasOwnPropertyStr K base name then Inl (referenceError (name @ '' is not defined''))
      else (case setOwnStr K base name v strict of Some e \<Rightarrow> Inl e | None \<Rightarrow> Inr vs))"

text \<open>The method \<^verbatim>\<open>set\<close> of the interface \<^verbatim>\<open>ref\<close>, dispatched on the variant.\<close>

fun ref_set :: "objops \<Rightarrow> ref \<Rightarrow> Value option \<Rightarrow> valueStack \<Rightarrow> panicval + valueStack" where
  "ref_set K (StashRef r) v vs = stashRef_set r v vs"
| "ref_set K (StashRefLex r) v vs = stashRefLex_set r v vs"
| "ref_set K (StashRefConst r strictConst) v vs = stashRefConst_set strictConst v vs"
| "ref_set K (ObjRef base name strict) v vs = objRef_set K base name strict v vs"
| "ref_set K (UnresolvedRef name) v vs = Inl (throwReferenceError name)"

text \<open>\<^verbatim>\<open>func (s *stash) getRefByName(name unistring.String, strict bool) ref\<close>\<close>

definition getRefByName :: "masks \<Rightarrow> objops \<Rightarrow> stash \<Rightarrow> string \<Rightarrow> bool \<Rightarrow> ref option" where
  "getRefByName M K s name strict =
     (case obj s of
        Some ob \<Rightarrow> (if stashObjHas K ob name then Some (ObjRef ob name strict) else None)
      | None \<Rightarrow>
          (case names_lookup (names s) name of
             Some i \<Rightarrow>
               (if i AND maskVar M = 0 then
                  (if i AND maskConst M = 0 then
                     Some (StashRefLex \<lparr>ref_n = name, ref_idx = unat (i AND NOT (maskTyp M))\<rparr>)
                   else
                     Some (StashRefConst \<lparr>ref_n = name, ref_idx = unat (i AND NOT (maskTyp M))\<rparr>
                             (strict \<or> i AND maskStrict M \<noteq> 0)))
                else Some (StashRef \<lparr>ref_n = name, ref_idx = unat (i AND NOT (maskTyp M))\<rparr>))
           | None \<Rightarrow> None))"

text \<open>
  An instance of the parameters, for evaluating the scope code on concrete records:
  pairwise distinct kind bits above the slot numbers, an empty slot-backed scope record,
  and an object system in which no object has any property.
\<close>

definition exampleMasks :: masks where
  "exampleMasks = \<lparr>maskVar = 0x20000000, maskConst = 0x80000000, maskStrict = 0x10000000,
                    maskDeletable = 0x10000000, maskTyp = 0xF0000000\<rparr>"

definition emptyStash :: stash where
  "emptyStash = \<lparr>values_s = [], extraArgs = [], names = None, obj = None, outer = None,
                  variable = False\<rparr>"

definition exampleObjops :: objops where
  "exampleObjops = \<lparr>hasPropertyStr = (\<lambda>_ _. False), hasOwnPropertyStr = (\<lambda>_ _. False),
     getStr = (\<lambda>_ _. None), getUnscopables = (\<lambda>_. None), ToBoolean = (\<lambda>_. False),
     setOwnStr = (\<lambda>_ _ _ _. None)\<rparr>"

section \<open>The machine state\<close>

text \<open>
  Instructions are compared with \<^verbatim>\<open>retFinally\<close> only; every other instruction is known
  by a number.  A program is its function name and its code.
\<close>

datatype instruction = retFinally | otherInstruction nat

record Program =
  prg_funcName :: string
  code :: "instruction list"

text \<open>\<^verbatim>\<open>type vmContext struct\<close>; the Go context \<^verbatim>\<open>ctx\<close> is known by identity.\<close>

record vmContext =
  c_ctx :: nat
  c_prg :: "Program option"
  c_funcName :: string
  c_stash :: "nat option"
  c_newTarget :: "Value option"
  c_result :: "Value option"
  c_pc :: int
  c_sb :: int
  c_args :: int

text \<open>\<^verbatim>\<open>type iterStackItem struct\<close>; the cursor function and the iterator record are
  known by identity, \<open>None\<close> is nil.\<close>

record iterStackItem =
  item_val :: "Value option"
  item_f :: "nat option"
  item_iter :: "nat option"

text \<open>
  \<^verbatim>\<open>type vm struct\<close>.  Go's \<^verbatim>\<open>int\<close> is \<open>int\<close>: the machine counts stack positions
  and frames, far from the 64-bit bounds.  The interrupt fields and the locks are left out.
\<close>

record vm =
  ctx :: nat
  prg :: "Program option"
  funcName :: string
  pc :: int
  stack :: valueStack
  sp :: int
  sb :: int
  args :: int
  stash :: "nat option"
  callStack :: "vmContext list"
  iterStack :: "iterStackItem list"
  refStack :: "ref option list"
  newTarget :: "Value option"
  result :: "Value option"
  maxCallStackSize :: int
  stashAllocs :: int
  halt :: bool

text \<open>
  A function that works on the machine either returns, leaving the machine in a new state,
  or panics with a value, leaving the machine in the state it had reached.
\<close>

datatype outcome = Returns vm | Panics panicval vm

text \<open>The zero value \<^verbatim>\<open>vmContext{}\<close> and the zero value \<^verbatim>\<open>iterStackItem{}\<close>.\<close>

definition zeroCtx :: vmContext where
  "zeroCtx = \<lparr>c_ctx = 0, c_prg = None, c_funcName = [], c_stash = None, c_newTarget = None,
               c_result = None, c_pc = 0, c_sb = 0, c_args = 0\<rparr>"

definition zeroItem :: iterStackItem where
  "zeroItem = \<lparr>item_val = None, item_f = None, item_iter = None\<rparr>"

text \<open>\<^verbatim>\<open>func (vm *vm) saveCtx(ctx *vmContext)\<close>\<close>

definition saveCtx :: "vm \<Rightarrow> vmContext \<Rightarrow> vmContext" where
  "saveCtx vm c =
     (let c1 = c\<lparr>c_prg := prg vm, c_stash := stash vm, c_newTarget := newTarget vm,
                 c_result := result vm, c_pc := pc vm, c_sb := sb vm, c_args := args vm\<rparr>;
          c2 = (if funcName vm \<noteq> [] then c1\<lparr>c_funcName := funcName vm\<rparr>
                else (case c_prg c1 of
                        Some p \<Rightarrow> (if prg_funcName p \<noteq> [] then c1\<lparr>c_funcName := prg_funcName p\<rparr> else c1)
                      | None \<Rightarrow> c1))
      in c2\<lparr>c_ctx := ctx vm\<rparr>)"

text \<open>\<^verbatim>\<open>func (vm *vm) pushCtx()\<close>\<close>

definition pushCtx :: "vm \<Rightarrow> outcome" where
  "pushCtx vm =
     (if maxCallStackSize vm \<noteq> 0 \<and> int (length (callStack vm)) + 1 \<ge> maxCallStackSize vm
      then Panics (rangeError ''Maximum call stack size exceeded'') vm
      else Returns (vm\<lparr>callStack := callStack vm @ [saveCtx vm zeroCtx]\<rparr>))"

text \<open>\<^verbatim>\<open>func (vm *vm) restoreCtx(ctx *vmContext)\<close>\<close>

definition restoreCtx :: "vmContext \<Rightarrow> vm \<Rightarrow> vm" where
  "restoreCtx c vm =
     vm\<lparr>prg := c_prg c, stash := c_stash c, newTarget := c_newTarget c, result := c_result c,
        pc := c_pc c, sb := c_sb c, args := c_args c, ctx := c_ctx c, funcName := c_funcName c\<rparr>"

text \<open>
  \<^verbatim>\<open>func (vm *vm) popCtx()\<close>.  With an empty frame array the index \<^verbatim>\<open>l\<close> is -1 and Go
  panics.
\<close>

definition popCtx :: "vm \<Rightarrow> outcome" where
  "popCtx vm =
     (if callStack vm = [] then Panics indexOutOfRange vm
      else Returns ((restoreCtx (last (callStack vm)) vm)\<lparr>callStack := butlast (callStack vm)\<rparr>))"

text \<open>An example machine: nothing on its stacks, at most four frames.\<close>

definition exampleVm :: vm where
  "exampleVm = \<lparr>ctx = 0, prg = None, funcName = [], pc = 0, stack = [], sp = 0, sb = -1, args = 0,
     stash = None, callStack = [], iterStack = [], refStack = [], newTarget = None,
     result = None, maxCallStackSize = 4, stashAllocs = 0, halt = False\<rparr>"

section \<open>Numbers\<close>

text \<open>
  Go's operations on \<^verbatim>\<open>float64\<close>, on the IEEE-754 classes.  The signed rational value of
  a finite number:
\<close>

definition fval :: "bool \<Rightarrow> rat \<Rightarrow> rat" where
  "fval s m = (if s then - \<bar>m\<bar> else \<bar>m\<bar>)"

text \<open>\<^verbatim>\<open>math.IsNaN\<close>, \<^verbatim>\<open>math.IsInf(f, sign)\<close> and \<^verbatim>\<open>math.Signbit\<close> (the sign bit of a
  NaN is not modelled; the source never looks at it).\<close>

fun IsNaN :: "float64 \<Rightarrow> bool" where
  "IsNaN FNaN = True"
| "IsNaN _ = False"

fun IsInf :: "float64 \<Rightarrow> int \<Rightarrow> bool" where
  "IsInf (FInf s) sign = (if sign > 0 then \<not> s else if sign < 0 then s else True)"
| "IsInf _ sign = False"

fun Signbit :: "float64 \<Rightarrow> bool" where
  "Signbit FNaN = False"
| "Signbit (FInf s) = s"
| "Signbit (FFin s m) = s"

text \<open>Go's \<^verbatim>\<open>==\<close> and \<^verbatim>\<open><\<close> on \<^verbatim>\<open>float64\<close>: a NaN compares false with everything, the
  two zeros are equal.\<close>

fun feq :: "float64 \<Rightarrow> float64 \<Rightarrow> bool" where
  "feq FNaN _ = False"
| "feq _ FNaN = False"
| "feq (FInf s) (FInf t) = (s = t)"
| "feq (FFin s m) (FFin t k) = (fval s m = fval t k)"
| "feq _ _ = False"

fun flt :: "float64 \<Rightarrow> float64 \<Rightarrow> bool" where
  "flt FNaN _ = False"
| "flt _ FNaN = False"
| "flt (FInf s) (FInf t) = (s \<and> \<not> t)"
| "flt (FInf s) (FFin t k) = s"
| "flt (FFin s m) (FInf t) = (\<not> t)"
| "flt (FFin s m) (FFin t k) = (fval s m < fval t k)"

definition fle :: "float64 \<Rightarrow> float64 \<Rightarrow> bool" where
  "fle a b = (flt a b \<or> feq a b)"

text \<open>The comparison \<^verbatim>\<open>f == 0\<close>.\<close>

definition fzero :: "float64 \<Rightarrow> bool" where
  "fzero a = feq a (FFin False 0)"

text \<open>
  Go's \<^verbatim>\<open>/\<close> and \<^verbatim>\<open>*\<close> on \<^verbatim>\<open>float64\<close> are the IEEE-754 operations.  Their special
  cases are written out; the rounding of an exact non-zero quotient or product to binary64
  (to a finite number, to a signed zero on underflow, to an infinity on overflow) is the
  parameter \<open>rnd\<close>.
\<close>

fun fdiv :: "(rat \<Rightarrow> float64) \<Rightarrow> float64 \<Rightarrow> float64 \<Rightarrow> float64" where
  "fdiv rnd FNaN _ = FNaN"
| "fdiv rnd _ FNaN = FNaN"
| "fdiv rnd (FInf s) (FInf t) = FNaN"
| "fdiv rnd (FInf s) (FFin t k) = FInf (s \<noteq> t)"
| "fdiv rnd (FFin s m) (FInf t) = FFin (s \<noteq> t) 0"
| "fdiv rnd (FFin s m) (FFin t k) =
     (if k = 0 then (if m = 0 then FNaN else FInf (s \<noteq> t))
      else if m = 0 then FFin (s \<noteq> t) 0
      else rnd (fval s m / fval t k))"

fun fmul :: "(rat \<Rightarrow> float64) \<Rightarrow> float64 \<Rightarrow> float64 \<Rightarrow> float64" where
  "fmul rnd FNaN _ = FNaN"
| "fmul rnd _ FNaN = FNaN"
| "fmul rnd (FInf s) (FInf t) = FInf (s \<noteq> t)"
| "fmul rnd (FInf s) (FFin t k) = (if k = 0 then FNaN else FInf (s \<noteq> t))"
| "fmul rnd (FFin s m) (FInf t) = (if m = 0 then FNaN else FInf (s \<noteq> t))"
| "fmul rnd (FFin s m) (FFin t k) =
     (if m = 0 \<or> k = 0 then FFin (s \<noteq> t) 0 else rnd (fval s m * fval t k))"

text \<open>\<^verbatim>\<open>math.Trunc\<close>.\<close>

fun Trunc :: "float64 \<Rightarrow> float64" where
  "Trunc (FFin s m) = FFin s (of_int \<lfloor>\<bar>m\<bar>\<rfloor>)"
| "Trunc x = x"

text \<open>\<^verbatim>\<open>const maxInt = 1 << 53\<close>\<close>

definition maxInt :: int where "maxInt = 2 ^ 53"

text \<open>
  The conversion \<^verbatim>\<open>float64(i)\<close> of an \<^verbatim>\<open>int64\<close>: exact up to \<^verbatim>\<open>maxInt\<close> in magnitude,
  rounded beyond.
\<close>

definition float64_of_int64 :: "(rat \<Rightarrow> float64) \<Rightarrow> int64 \<Rightarrow> float64" where
  "float64_of_int64 rnd i =
     (if \<bar>sint i\<bar> \<le> maxInt then FFin (sint i < 0) (of_int \<bar>sint i\<bar>) else rnd (of_int (sint i)))"

text \<open>The conversion \<^verbatim>\<open>int64(f)\<close>, used on integral finite numbers within \<^verbatim>\<open>maxInt\<close>.\<close>

fun int64_of_float64 :: "float64 \<Rightarrow> int64" where
  "int64_of_float64 (FFin s m) = word_of_int (if s then - \<lfloor>\<bar>m\<bar>\<rfloor> else \<lfloor>\<bar>m\<bar>\<rfloor>)"
| "int64_of_float64 _ = 0"

text \<open>Go's \<^verbatim>\<open>/\<close> on \<^verbatim>\<open>int64\<close> truncates towards zero and wraps around.\<close>

definition int64_div :: "int64 \<Rightarrow> int64 \<Rightarrow> int64" where
  "int64_div a b = word_of_int (sgn (sint a) * sgn (sint b) * (\<bar>sint a\<bar> div \<bar>sint b\<bar>))"

text \<open>
  The conversions \<^verbatim>\<open>ToNumber\<close>, \<^verbatim>\<open>ToFloat\<close> and \<^verbatim>\<open>ToInt64\<close> are methods of
  \<^verbatim>\<open>Value\<close> declared outside \<^verbatim>\<open>vm.go\<close>.  Modelled from the spec: on the number variants
  they are the identity and Go's conversions (the single canonical coercion path of the data
  model); on every other variant they are parameters, as is the rounding to binary64.
\<close>

record numops =
  round64 :: "rat \<Rightarrow> float64"
  ToNumber_other :: "Value \<Rightarrow> Value"
  ToFloat_other :: "Value \<Rightarrow> float64"
  ToInt64_other :: "Value \<Rightarrow> int64"
  toPrimitiveNumber_obj :: "Object \<Rightarrow> Value"

fun ToNumber :: "numops \<Rightarrow> Value \<Rightarrow> Value" where
  "ToNumber N (valueInt i) = valueInt i"
| "ToNumber N (valueInt64 i) = valueInt64 i"
| "ToNumber N (valueFloat x) = valueFloat x"
| "ToNumber N v = ToNumber_other N v"

fun ToFloat :: "numops \<Rightarrow> Value \<Rightarrow> float64" where
  "ToFloat N (valueInt i) = float64_of_int64 (round64 N) i"
| "ToFloat N (valueInt64 i) = float64_of_int64 (round64 N) i"
| "ToFloat N (valueFloat x) = x"
| "ToFloat N v = ToFloat_other N v"

fun ToInt64 :: "numops \<Rightarrow> Value \<Rightarrow> int64" where
  "ToInt64 N (valueInt i) = i"
| "ToInt64 N (valueInt64 i) = i"
| "ToInt64 N v = ToInt64_other N v"

text \<open>\<^verbatim>\<open>func intToValue(i int64) Value\<close> (the cache of small integers holds the same
  values).\<close>

definition intToValue :: "numops \<Rightarrow> int64 \<Rightarrow> Value" where
  "intToValue N i =
     (if sint i \<ge> - maxInt \<and> sint i \<le> maxInt then valueInt i
      else valueFloat (float64_of_int64 (round64 N) i))"

text \<open>\<^verbatim>\<open>func floatToInt(f float64) (result int64, ok bool)\<close>\<close>

definition floatToInt :: "float64 \<Rightarrow> int64 \<times> bool" where
  "floatToInt x =
     (if (\<not> fzero x \<or> \<not> Signbit x) \<and> \<not> IsInf x 0 \<and> feq x (Trunc x)
         \<and> fle (FFin True (of_int maxInt)) x \<and> fle x (FFin False (of_int maxInt))
      then (int64_of_float64 x, True) else (0, False))"

text \<open>\<^verbatim>\<open>func floatToValue(f float64) (result Value)\<close>\<close>

definition floatToValue :: "float64 \<Rightarrow> Value" where
  "floatToValue x =
     (if fzero x then (if Signbit x then v_negativeZero else valueFloat x)
      else if IsNaN x then v_NaN
      else if IsInf x 1 then v_positiveInf
      else if IsInf x (-1) then v_negativeInf
      else valueFloat x)"

text \<open>\<^verbatim>\<open>func assertInt64(v Value) (int64, bool)\<close>\<close>

definition assertInt64 :: "numops \<Rightarrow> Value \<Rightarrow> int64 \<times> bool" where
  "assertInt64 N v =
     (case ToNumber N v of
        valueInt i \<Rightarrow> (i, True)
      | valueInt64 _ \<Rightarrow> (ToInt64 N v, True)
      | valueFloat x \<Rightarrow> (case floatToInt x of (i, ok) \<Rightarrow> if ok then (i, True) else (0, False))
      | _ \<Rightarrow> (0, False))"

text \<open>
  The instructions read their operands from the stack; Go panics when the index is out of
  range, and when a method is called on the nil interface value.
\<close>

definition nilDereference :: panicval where
  "nilDereference = goPanic ''invalid memory address or nil pointer dereference''"

definition operand :: "vm \<Rightarrow> int \<Rightarrow> panicval + Value" where
  "operand vm i =
     (if 0 \<le> i \<and> i < int (length (stack vm)) then
        (case stack vm ! nat i of Some v \<Rightarrow> Inr v | None \<Rightarrow> Inl nilDereference)
      else Inl indexOutOfRange)"

text \<open>
  The common frame of the binary instructions: the operands are \<^verbatim>\<open>vm.stack[vm.sp-2]\<close>
  and \<^verbatim>\<open>vm.stack[vm.sp-1]\<close>, the result replaces the left one, \<^verbatim>\<open>vm.sp\<close> goes down and
  \<^verbatim>\<open>vm.pc\<close> up by one.
\<close>

definition binary_exec :: "(Value \<Rightarrow> Value \<Rightarrow> Value) \<Rightarrow> vm \<Rightarrow> outcome" where
  "binary_exec opr vm =
     (case operand vm (sp vm - 2) of
        Inl e \<Rightarrow> Panics e vm
      | Inr left \<Rightarrow>
          (case operand vm (sp vm - 1) of
             Inl e \<Rightarrow> Panics e vm
           | Inr right \<Rightarrow>
               Returns (vm\<lparr>stack := (stack vm)[nat (sp vm - 2) := Some (opr left right)],
                           sp := sp vm - 1, pc := pc vm + 1\<rparr>)))"

text \<open>\<^verbatim>\<open>func (_div) exec(vm *vm)\<close>: the computation of \<^verbatim>\<open>result\<close> from the two floats,
  and the instruction.\<close>

definition div_result :: "numops \<Rightarrow> float64 \<Rightarrow> float64 \<Rightarrow> Value" where
  "div_result N left right =
     (if IsNaN left \<or> IsNaN right then v_NaN
      else if IsInf left 0 \<and> IsInf right 0 then v_NaN
      else if fzero left \<and> fzero right then v_NaN
      else if IsInf left 0 then
        (if Signbit left = Signbit right then v_positiveInf else v_negativeInf)
      else if IsInf right 0 then
        (if Signbit left = Signbit right then v_positiveZero else v_negativeZero)
      else if fzero right then
        (if Signbit left = Signbit right then v_positiveInf else v_negativeInf)
      else floatToValue (fdiv (round64 N) left right))"

definition div_exec :: "numops \<Rightarrow> vm \<Rightarrow> outcome" where
  "div_exec N vm = binary_exec (\<lambda>left right. div_result N (ToFloat N left) (ToFloat N right)) vm"

text \<open>\<^verbatim>\<open>func (_mul) exec(vm *vm)\<close>\<close>

definition mul_result :: "numops \<Rightarrow> Value \<Rightarrow> Value \<Rightarrow> Value" where
  "mul_result N left right =
     (case assertInt64 N left of
        (l, True) \<Rightarrow>
          (case assertInt64 N right of
             (r, True) \<Rightarrow>
               (if l = 0 \<and> r = -1 \<or> l = -1 \<and> r = 0 then v_negativeZero
                else (let res = l * r in
                  if l = 0 \<or> r = 0 \<or> int64_div res l = r then intToValue N res
                  else floatToValue (fmul (round64 N) (ToFloat N left) (ToFloat N right))))
           | (r, False) \<Rightarrow> floatToValue (fmul (round64 N) (ToFloat N left) (ToFloat N right)))
      | (l, False) \<Rightarrow> floatToValue (fmul (round64 N) (ToFloat N left) (ToFloat N right)))"

definition mul_exec :: "numops \<Rightarrow> vm \<Rightarrow> outcome" where
  "mul_exec N vm = binary_exec (mul_result N) vm"

text \<open>
  Modelled from the spec: \<^verbatim>\<open>valueString.compareTo\<close> is declared outside \<^verbatim>\<open>vm.go\<close>;
  strings compare lexicographically, character by character.
\<close>

fun compareTo :: "string \<Rightarrow> string \<Rightarrow> int" where
  "compareTo [] [] = 0"
| "compareTo [] (y # ys) = - 1"
| "compareTo (x # xs) [] = 1"
| "compareTo (x # xs) (y # ys) =
     (if (of_char x :: nat) < of_char y then - 1
      else if (of_char y :: nat) < of_char x then 1
      else compareTo xs ys)"

text \<open>\<^verbatim>\<open>func toPrimitiveNumber(v Value) Value\<close>\<close>

fun toPrimitiveNumber :: "numops \<Rightarrow> Value \<Rightarrow> Value" where
  "toPrimitiveNumber N (valueObject ob) = toPrimitiveNumber_obj N ob"
| "toPrimitiveNumber N v = v"

text \<open>\<^verbatim>\<open>func cmp(px, py Value) Value\<close>\<close>

definition bool_value :: "bool \<Rightarrow> Value" where
  "bool_value ret = (if ret then valueTrue else valueFalse)"

definition cmp_floats :: "numops \<Rightarrow> Value \<Rightarrow> Value \<Rightarrow> Value" where
  "cmp_floats N px py =
     (let nx = ToFloat N px; ny = ToFloat N py in
      if IsNaN nx \<or> IsNaN ny then v_undefined else bool_value (flt nx ny))"

fun cmp :: "numops \<Rightarrow> Value \<Rightarrow> Value \<Rightarrow> Value" where
  "cmp N (valueString xs) (valueString ys) = bool_value (compareTo xs ys < 0)"
| "cmp N (valueInt xi) (valueInt yi) = bool_value (xi <s yi)"
| "cmp N (valueInt64 xi) (valueInt64 yi) = bool_value (xi <s yi)"
| "cmp N px py = cmp_floats N px py"

text \<open>The relational instructions.\<close>

definition op_lt_result :: "numops \<Rightarrow> Value \<Rightarrow> Value \<Rightarrow> Value" where
  "op_lt_result N l r =
     (let left = toPrimitiveNumber N l; right = toPrimitiveNumber N r; c = cmp N left right in
      if c = v_undefined then valueFalse else c)"

definition op_lte_result :: "numops \<Rightarrow> Value \<Rightarrow> Value \<Rightarrow> Value" where
  "op_lte_result N l r =
     (let left = toPrimitiveNumber N l; right = toPrimitiveNumber N r; c = cmp N right left in
      if c = v_undefined \<or> c = valueTrue then valueFalse else valueTrue)"

definition op_gt_result :: "numops \<Rightarrow> Value \<Rightarrow> Value \<Rightarrow> Value" where
  "op_gt_result N l r =
     (let left = toPrimitiveNumber N l; right = toPrimitiveNumber N r; c = cmp N right left in
      if c = v_undefined then valueFalse else c)"

definition op_gte_result :: "numops \<Rightarrow> Value \<Rightarrow> Value \<Rightarrow> Value" where
  "op_gte_result N l r =
     (let left = toPrimitiveNumber N l; right = toPrimitiveNumber N r; c = cmp N left right in
      if c = v_undefined \<or> c = valueTrue then valueFalse else valueTrue)"

definition op_lt_exec :: "numops \<Rightarrow> vm \<Rightarrow> outcome" where
  "op_lt_exec N vm = binary_exec (op_lt_result N) vm"

definition op_lte_exec :: "numops \<Rightarrow> vm \<Rightarrow> outcome" where
  "op_lte_exec N vm = binary_exec (op_lte_result N) vm"

definition op_gt_exec :: "numops \<Rightarrow> vm \<Rightarrow> outcome" where
  "op_gt_exec N vm = binary_exec (op_gt_result N) vm"

definition op_gte_exec :: "numops \<Rightarrow> vm \<Rightarrow> outcome" where
  "op_gte_exec N vm = binary_exec (op_gte_result N) vm"

text \<open>
  An instance of the number parameters: the rounding is exact (it agrees with the rounding
  to binary64 on every number that binary64 represents), the variants that are not numbers
  convert to NaN.
\<close>

definition exactRound :: "rat \<Rightarrow> float64" where
  "exactRound q = FFin (q < 0) \<bar>q\<bar>"

definition exampleNumops :: numops where
  "exampleNumops = \<lparr>round64 = exactRound, ToNumber_other = (\<lambda>_. valueFloat FNaN),
     ToFloat_other = (\<lambda>_. FNaN), ToInt64_other = (\<lambda>_. 0),
     toPrimitiveNumber_obj = (\<lambda>_. valueFloat FNaN)\<rparr>"

text \<open>
  Go's arithmetic on \<^verbatim>\<open>float64\<close> and its conversion \<^verbatim>\<open>float64(i)\<close> round to the nearest
  number of IEEE-754 binary64, ties to the even significand: 53 significant bits, the
  exponents of normal numbers from -1022 to 1023, subnormal numbers below, and an infinity
  from \<open>2 ^ 1024\<close> on.  \<open>ilog2 a\<close> is the exponent of the power of two at or below a
  positive \<open>a\<close>.
\<close>

definition roundHalfEven :: "rat \<Rightarrow> int" where
  "roundHalfEven q =
     (let fl = \<lfloor>q\<rfloor>; d = q - of_int fl in
      if d < 1 / 2 then fl else if 1 / 2 < d then fl + 1 else if even fl then fl else fl + 1)"

definition pow2 :: "int \<Rightarrow> rat" where
  "pow2 e = (if 0 \<le> e then 2 ^ nat e else 1 / 2 ^ nat (- e))"

definition ilog2 :: "rat \<Rightarrow> int" where
  "ilog2 a = (if 1 \<le> a then bitlen \<lfloor>a\<rfloor> - 1 else - bitlen (\<lceil>1 / a\<rceil> - 1))"

definition roundBinary64 :: "rat \<Rightarrow> float64" where
  "roundBinary64 q =
     (let a = \<bar>q\<bar> in
      if a = 0 then FFin False 0
      else
        (let u = max (ilog2 a) (- 1022) - 52;
             r = of_int (roundHalfEven (a / pow2 u)) * pow2 u
         in if 2 ^ 1024 \<le> r then FInf (q < 0) else FFin (q < 0) r))"

text \<open>The number parameters with the rounding of binary64.\<close>

definition binary64Numops :: numops where
  "binary64Numops = exampleNumops\<lparr>round64 := roundBinary64\<rparr>"

section \<open>The runtime around the machine\<close>

text \<open>
  An \<^verbatim>\<open>*Exception\<close> is known by the value it carries (the stack trace it captures is
  not modelled); the constructor \<open>thrownException\<close> of \<open>panicval\<close> is a panic with an
  \<^verbatim>\<open>*Exception\<close> of that value.
\<close>

datatype Exception = Exception Value

fun ex_val :: "Exception \<Rightarrow> Value" where
  "ex_val (Exception v) = v"

text \<open>\<^verbatim>\<open>type FunctionCall struct\<close>, as far as the machine fills it.\<close>

record FunctionCall =
  fc_ctx :: nat
  Arguments :: "Value option list"
  This :: "Value option"

text \<open>
  What the machine calls outside \<^verbatim>\<open>vm.go\<close> is a parameter: the error objects the
  runtime creates, the global object and the built-in eval object, \<^verbatim>\<open>Runtime.eval\<close>,
  \<^verbatim>\<open>Value.toString\<close>, the constructor and the native function of an object
  (\<^verbatim>\<open>assertConstructor\<close>, and the function of a \<^verbatim>\<open>*nativeFuncObject\<close>; \<open>None\<close> when
  the object has none), and \<^verbatim>\<open>iteratorRecord.returnIter\<close>.  Two parts of \<^verbatim>\<open>vm.go\<close> itself
  are parameters as well, since they range over the whole instruction set: the dispatch loop
  \<^verbatim>\<open>vm.run\<close>, and the dispatch of \<^verbatim>\<open>call.exec\<close> on the kind of the callee.  A call that
  returns a value gives the value and the new state of the machine.
\<close>

type_synonym 'a called = "(panicval \<times> vm) + ('a \<times> vm)"

record runtime =
  NewTypeError :: "string \<Rightarrow> Value"
  newReferenceError :: "string \<Rightarrow> Value"
  newRangeError :: "string \<Rightarrow> Value"
  accessBeforeInitError :: Value
  assignToConstError :: Value
  globalObject :: Object
  Eval :: Object
  eval :: "string \<Rightarrow> bool \<Rightarrow> bool \<Rightarrow> Value option \<Rightarrow> vm \<Rightarrow> (Value option) called"
  toString :: "Value \<Rightarrow> string"
  assertConstructor :: "Object \<Rightarrow> (Value option list \<Rightarrow> vm \<Rightarrow> (Value option) called) option"
  nativeFuncObject :: "Object \<Rightarrow> (FunctionCall \<Rightarrow> vm \<Rightarrow> (Value option) called) option"
  returnIter :: "nat \<Rightarrow> vm \<Rightarrow> outcome"
  run :: "vm \<Rightarrow> outcome"
  call_dispatch :: "int \<Rightarrow> Object \<Rightarrow> vm \<Rightarrow> outcome"
  stackDepthLimit :: int

text \<open>Reading and writing \<^verbatim>\<open>vm.stack[i]\<close>, and the slice \<^verbatim>\<open>vm.stack[i:j]\<close>.\<close>

definition stack_read :: "vm \<Rightarrow> int \<Rightarrow> panicval + Value option" where
  "stack_read vm i =
     (if 0 \<le> i \<and> i < int (length (stack vm)) then Inr (stack vm ! nat i)
      else Inl indexOutOfRange)"

definition stack_write :: "vm \<Rightarrow> int \<Rightarrow> Value option \<Rightarrow> outcome" where
  "stack_write vm i v =
     (if 0 \<le> i \<and> i < int (length (stack vm)) then Returns (vm\<lparr>stack := (stack vm)[nat i := v]\<rparr>)
      else Panics indexOutOfRange vm)"

definition sliceOutOfRange :: panicval where
  "sliceOutOfRange = goPanic ''slice bounds out of range''"

definition stack_slice :: "vm \<Rightarrow> int \<Rightarrow> int \<Rightarrow> panicval + Value option list" where
  "stack_slice vm i j =
     (if 0 \<le> i \<and> i \<le> j \<and> j \<le> int (length (stack vm))
      then Inr (take (nat (j - i)) (drop (nat i) (stack vm)))
      else Inl sliceOutOfRange)"

text \<open>
  \<^verbatim>\<open>func (vm *vm) push(v Value)\<close>, with \<^verbatim>\<open>valueStack.expand\<close>: the stack grows to hold
  the position \<^verbatim>\<open>vm.sp\<close>.  (Positions that \<^verbatim>\<open>expand\<close> uncovers between the old length and
  \<^verbatim>\<open>vm.sp\<close> are taken as nil.)
\<close>

definition push :: "vm \<Rightarrow> Value option \<Rightarrow> outcome" where
  "push vm v =
     (if sp vm < 0 then Panics indexOutOfRange vm
      else if sp vm < int (length (stack vm))
        then Returns (vm\<lparr>stack := (stack vm)[nat (sp vm) := v], sp := sp vm + 1\<rparr>)
      else Returns (vm\<lparr>stack := stack vm @ replicate (nat (sp vm) - length (stack vm)) None @ [v],
                       sp := sp vm + 1\<rparr>))"

text \<open>
  Modelled from the spec: \<^verbatim>\<open>Runtime.toObject\<close> is declared outside \<^verbatim>\<open>vm.go\<close>; it
  returns the object of an object value and raises a type error for every other value.
\<close>

fun toObject :: "runtime \<Rightarrow> Value option \<Rightarrow> panicval + Object" where
  "toObject R (Some (valueObject ob)) = Inr ob"
| "toObject R (Some v) = Inl (thrownValue (NewTypeError R (''Value is not an object: '' @ toString R v)))"
| "toObject R None = Inl nilDereference"

text \<open>\<^verbatim>\<open>func (vm *vm) toCallee(v Value) *Object\<close>\<close>

fun toCallee :: "runtime \<Rightarrow> Value option \<Rightarrow> panicval + Object" where
  "toCallee R (Some (valueObject ob)) = Inr ob"
| "toCallee R (Some (valueUnresolved name)) = Inl (throwReferenceError name)"
| "toCallee R (Some (memberUnresolved name)) =
     Inl (thrownValue (NewTypeError R ([CHR 0x27] @ name @ [CHR 0x27] @ '' is not a function'')))"
| "toCallee R (Some v) = Inl (thrownValue (NewTypeError R (''Value is not an object: '' @ toString R v)))"
| "toCallee R None = Inl nilDereference"

text \<open>
  \<^verbatim>\<open>func (numargs call) exec(vm *vm)\<close>: the callee is \<^verbatim>\<open>vm.stack[vm.sp-n-1]\<close>; after
  \<^verbatim>\<open>toCallee\<close> and the depth check, the call goes by the kind of the callee.
\<close>

definition call_exec :: "runtime \<Rightarrow> int \<Rightarrow> vm \<Rightarrow> outcome" where
  "call_exec R n vm =
     (case stack_read vm (sp vm - n - 1) of
        Inl e \<Rightarrow> Panics e vm
      | Inr v \<Rightarrow>
          (case toCallee R v of
             Inl e \<Rightarrow> Panics e vm
           | Inr ob \<Rightarrow>
               (if stackDepthLimit R \<noteq> 0 \<and> int (length (callStack vm)) + 1 \<ge> stackDepthLimit R
                then Panics (rangeError ''Maximum call stack size exceeded'') vm
                else call_dispatch R n ob vm)))"

text \<open>\<^verbatim>\<open>func (vm *vm) callEval(n int, strict bool)\<close>\<close>

definition evalNotAFunction :: "runtime \<Rightarrow> panicval" where
  "evalNotAFunction R = thrownValue (NewTypeError R ([CHR 0x27] @ ''eval'' @ [CHR 0x27] @ '' is not a function''))"

definition callEval_finish :: "int \<Rightarrow> vm \<Rightarrow> Value option \<Rightarrow> outcome" where
  "callEval_finish n vm ret =
     (case stack_write vm (sp vm - n - 2) ret of
        Panics e vm' \<Rightarrow> Panics e vm'
      | Returns vm' \<Rightarrow> Returns (vm'\<lparr>sp := sp vm' - (n + 1), pc := pc vm' + 1\<rparr>))"

definition callEval :: "runtime \<Rightarrow> int \<Rightarrow> bool \<Rightarrow> vm \<Rightarrow> outcome" where
  "callEval R n strict vm =
     (case stack_read vm (sp vm - n - 1) of
        Inl e \<Rightarrow> Panics e vm
      | Inr (Some (valueObject ob)) \<Rightarrow>
          (if ob = Eval R then
             (if n > 0 then
                (case stack_read vm (sp vm - n) of
                   Inl e \<Rightarrow> Panics e vm
                 | Inr (Some (valueString src)) \<Rightarrow>
                     (case (if sb vm \<ge> 0 then stack_read vm (sb vm)
                            else Inr (Some (valueObject (globalObject R)))) of
                        Inl e \<Rightarrow> Panics e vm
                      | Inr this \<Rightarrow>
                          (case eval R src True strict this vm of
                             Inl (e, vm') \<Rightarrow> Panics e vm'
                           | Inr (ret, vm') \<Rightarrow> callEval_finish n vm' ret))
                 | Inr srcVal \<Rightarrow> callEval_finish n vm srcVal)
              else callEval_finish n vm (Some v_undefined))
           else call_exec R n vm)
      | Inr _ \<Rightarrow> Panics (evalNotAFunction R) vm)"

text \<open>
  \<^verbatim>\<open>func (n _new) exec(vm *vm)\<close>.  The constructor and the native function are called on
  the machine and return the machine with the value; the value is stored at
  \<^verbatim>\<open>vm.stack[sp-1]\<close> of the stack that the call leaves.
\<close>

definition new_finish :: "int \<Rightarrow> vm \<Rightarrow> vm" where
  "new_finish sp' vm = vm\<lparr>sp := sp', pc := pc vm + 1\<rparr>"

definition new_exec :: "runtime \<Rightarrow> nat \<Rightarrow> vm \<Rightarrow> outcome" where
  "new_exec R n vm =
     (let sp' = sp vm - int n in
      case stack_read vm (sp' - 1) of
        Inl e \<Rightarrow> Panics e vm
      | Inr ob \<Rightarrow>
          (case toObject R ob of
             Inl e \<Rightarrow> Panics e vm
           | Inr o1 \<Rightarrow>
               (case assertConstructor R o1 of
                  Some ctor \<Rightarrow>
                    (case stack_slice vm sp' (sp vm) of
                       Inl e \<Rightarrow> Panics e vm
                     | Inr as \<Rightarrow>
                         (case ctor as vm of
                            Inl (e, vm') \<Rightarrow> Panics e vm'
                          | Inr (v, vm') \<Rightarrow>
                              (case stack_write vm' (sp' - 1) v of
                                 Panics e vm'' \<Rightarrow> Panics e vm''
                               | Returns vm'' \<Rightarrow> Returns (new_finish sp' vm''))))
                | None \<Rightarrow>
                    (case nativeFuncObject R o1 of
                       Some fn \<Rightarrow>
                         (case stack_slice vm (sp vm - args vm) (sp vm) of
                            Inl e \<Rightarrow> Panics e vm
                          | Inr as \<Rightarrow>
                              (case fn \<lparr>fc_ctx = ctx vm, Arguments = as, This = ob\<rparr> vm of
                                 Inl (e, vm') \<Rightarrow> Panics e vm'
                               | Inr (v, vm') \<Rightarrow>
                                   (case stack_write vm' (sp' - 1) v of
                                      Panics e vm'' \<Rightarrow> Panics e vm''
                                    | Returns vm'' \<Rightarrow> Returns (new_finish sp' vm''))))
                     | None \<Rightarrow> Returns (new_finish sp' vm)))))"

text \<open>
  An instance of the runtime: the error objects are the objects 1 to 5, the global object
  is 10 and the built-in eval object 11; no object has a constructor or a native function;
  \<^verbatim>\<open>eval\<close> returns the number 42; closing an iterator, running the dispatch loop and
  dispatching a call return at once.
\<close>

definition exampleRuntime :: runtime where
  "exampleRuntime = \<lparr>NewTypeError = (\<lambda>_. valueObject 1), newReferenceError = (\<lambda>_. valueObject 2),
     newRangeError = (\<lambda>_. valueObject 3), accessBeforeInitError = valueObject 4,
     assignToConstError = valueObject 5, globalObject = 10, Eval = 11,
     eval = (\<lambda>src direct strict this vm. Inr (Some (valueInt 42), vm)),
     toString = (\<lambda>_. ''value''),
     assertConstructor = (\<lambda>_. None), nativeFuncObject = (\<lambda>_. None),
     returnIter = (\<lambda>it vm. Returns vm), run = (\<lambda>vm. Returns vm),
     call_dispatch = (\<lambda>n ob vm. Returns vm), stackDepthLimit = 0\<rparr>"

section \<open>Exceptions, unwinding and iterators\<close>

text \<open>
  The functions of this section return, next to their result, the list of the calls they
  make to the code that is a parameter, in the order of the calls: the three places where
  \<^verbatim>\<open>try.exec\<close> runs the dispatch loop (the try block, the catch block and the finally
  block), and every call of \<^verbatim>\<open>returnIter\<close> on an iterator record.  The list only
  observes the computation.
\<close>

datatype event = RunTry | RunCatch | RunFinally | Close nat

text \<open>
  The type switch of \<^verbatim>\<open>vm.try\<close> on the recovered value: it gives the exception that
  \<^verbatim>\<open>vm.try\<close> returns, or the value it panics with again.  Modelled from the spec:
  \<^verbatim>\<open>errAccessBeforeInit\<close> and \<^verbatim>\<open>errAssignToConst\<close> are declared outside \<^verbatim>\<open>vm.go\<close>;
  as script-visible error kinds they go through the ordinary raise and unwind mechanism
  and are catchable.
\<close>

fun recovered :: "runtime \<Rightarrow> panicval \<Rightarrow> panicval + Exception" where
  "recovered R (thrownValue v) = Inr (Exception v)"
| "recovered R InterruptedError = Inl InterruptedError"
| "recovered R (thrownException v) = Inr (Exception v)"
| "recovered R uncatchableException = Inl uncatchableException"
| "recovered R (typeError m) = Inr (Exception (NewTypeError R m))"
| "recovered R (referenceError m) = Inr (Exception (newReferenceError R m))"
| "recovered R (rangeError m) = Inr (Exception (newRangeError R m))"
| "recovered R errAccessBeforeInit = Inr (Exception (accessBeforeInitError R))"
| "recovered R errAssignToConst = Inr (Exception (assignToConstError R))"
| "recovered R (goPanic m) = Inl (goPanic m)"

text \<open>
  \<^verbatim>\<open>vm.try\<close> either returns an exception (nil when the function returned) or panics
  again.
\<close>

datatype try_result = Caught "Exception option" vm | Repanics panicval vm

text \<open>
  The loop \<^verbatim>\<open>for i := range iterTail\<close> in the deferred function of \<^verbatim>\<open>vm.try\<close>.
  \<open>tryClose\<close> is the nested \<^verbatim>\<open>vm.try\<close> around \<^verbatim>\<open>iter.returnIter()\<close>; the exception it
  returns is dropped, and when it panics the loop is left.  The items are those of the
  tail as the loop found it (the nested calls work above them); \<open>base + i\<close> is the
  position of the item in \<^verbatim>\<open>vm.iterStack\<close>, which is cleared after its turn.
\<close>

fun closeIters ::
  "(nat \<Rightarrow> vm \<Rightarrow> (event list \<times> try_result) option) \<Rightarrow> nat \<Rightarrow> iterStackItem list \<Rightarrow> vm
     \<Rightarrow> (event list \<times> outcome) option" where
  "closeIters tryClose pos [] vm = Some ([], Returns vm)"
| "closeIters tryClose pos (item # rest) vm =
     (case item_iter item of
        None \<Rightarrow> closeIters tryClose (Suc pos) rest (vm\<lparr>iterStack := (iterStack vm)[pos := zeroItem]\<rparr>)
      | Some it \<Rightarrow>
          (case tryClose it vm of
             None \<Rightarrow> None
           | Some (tr, Repanics p vm') \<Rightarrow> Some (Close it # tr, Panics p vm')
           | Some (tr, Caught ex vm') \<Rightarrow>
               (case closeIters tryClose (Suc pos) rest
                       (vm'\<lparr>iterStack := (iterStack vm')[pos := zeroItem]\<rparr>) of
                  None \<Rightarrow> None
                | Some (tr', r) \<Rightarrow> Some (Close it # tr @ tr', r))))"

text \<open>
  \<^verbatim>\<open>func (vm *vm) try(ctx1 context.Context, f func()) (ex *Exception)\<close>.  The function
  calls itself around every \<^verbatim>\<open>returnIter\<close>; the first argument bounds the depth of these
  nested calls, and the result is \<open>None\<close> when the bound is reached.  When \<open>body\<close>
  panics, the deferred function truncates the frame array, restores the saved context and
  the stack pointer, closes the iterators above the saved length of the iterator stack,
  truncates the iterator and the reference stack, and then returns the exception or panics
  again, as the type switch says.  (Go panics when a stack has become shorter than its
  saved length.)
\<close>

fun vm_try :: "nat \<Rightarrow> runtime \<Rightarrow> nat \<Rightarrow> (vm \<Rightarrow> outcome) \<Rightarrow> vm \<Rightarrow> (event list \<times> try_result) option" where
  "vm_try 0 R ctx1 body vm = None"
| "vm_try (Suc k) R ctx1 body vm =
     (let c = saveCtx vm (zeroCtx\<lparr>c_ctx := ctx1\<rparr>);
          ctxOffset = length (callStack vm);
          sp0 = sp vm;
          iterLen = length (iterStack vm);
          refLen = length (refStack vm)
      in case body vm of
           Returns vm' \<Rightarrow> Some ([], Caught None vm')
         | Panics x vm' \<Rightarrow>
             (let vm1 = (restoreCtx c (vm'\<lparr>callStack := take ctxOffset (callStack vm')\<rparr>))\<lparr>sp := sp0\<rparr>
              in if length (iterStack vm1) < iterLen then Some ([], Repanics sliceOutOfRange vm1)
                 else
                   (case closeIters (\<lambda>it v. vm_try k R (ctx v) (returnIter R it) v) iterLen
                           (drop iterLen (iterStack vm1)) vm1 of
                      None \<Rightarrow> None
                    | Some (tr, Panics p vm2) \<Rightarrow> Some (tr, Repanics p vm2)
                    | Some (tr, Returns vm2) \<Rightarrow>
                        (let vm3 = vm2\<lparr>iterStack := take iterLen (iterStack vm2)\<rparr>
                         in if length (refStack vm3) < refLen
                            then Some (tr, Repanics sliceOutOfRange vm3)
                            else
                              (let vm4 = vm3\<lparr>refStack := take refLen (refStack vm3)\<rparr>
                               in case recovered R x of
                                    Inl p \<Rightarrow> Some (tr, Repanics p vm4)
                                  | Inr ex \<Rightarrow> Some (tr, Caught (Some ex) vm4))))))"

text \<open>\<^verbatim>\<open>func (vm *vm) runTry(ctx context.Context) (ex *Exception)\<close>\<close>

definition runTry :: "nat \<Rightarrow> runtime \<Rightarrow> nat \<Rightarrow> vm \<Rightarrow> (event list \<times> try_result) option" where
  "runTry k R ctx1 vm = vm_try k R ctx1 (run R) vm"

text \<open>\<^verbatim>\<open>type try struct\<close>\<close>

record tryInstr =
  catchOffset :: int
  finallyOffset :: int

text \<open>
  \<^verbatim>\<open>func (t try) exec(vm *vm)\<close>, in two parts.  The first part runs the try block and,
  when that left an exception and a catch offset is configured, the catch block; it ends
  with the exception that is pending, if any.
\<close>

definition try_catch_part :: "nat \<Rightarrow> runtime \<Rightarrow> tryInstr \<Rightarrow> vm \<Rightarrow> (event list \<times> try_result) option" where
  "try_catch_part k R t vm =
     (let o1 = pc vm in
      case runTry k R (ctx vm) (vm\<lparr>pc := o1 + 1\<rparr>) of
        None \<Rightarrow> None
      | Some (tr, Repanics p vm1) \<Rightarrow> Some (RunTry # tr, Repanics p vm1)
      | Some (tr, Caught None vm1) \<Rightarrow> Some (RunTry # tr, Caught None vm1)
      | Some (tr, Caught (Some ex) vm1) \<Rightarrow>
          (if catchOffset t > 0 then
             (case push (vm1\<lparr>pc := o1 + catchOffset t\<rparr>) (Some (ex_val ex)) of
                Panics p vm2 \<Rightarrow> Some (RunTry # tr, Repanics p vm2)
              | Returns vm2 \<Rightarrow>
                  (case runTry k R (ctx vm2) vm2 of
                     None \<Rightarrow> None
                   | Some (tr', r) \<Rightarrow> Some (RunTry # tr @ RunCatch # tr', r)))
           else Some (RunTry # tr, Caught (Some ex) vm1)))"

text \<open>
  The second part runs the finally block when a finally offset is configured, looks at the
  instruction at which the block stopped, and ends the instruction: it panics with the
  pending exception, if one is left.
\<close>

definition try_end :: "Exception option \<Rightarrow> vm \<Rightarrow> outcome" where
  "try_end ex vm =
     (case ex of
        None \<Rightarrow> Returns (vm\<lparr>halt := False\<rparr>)
      | Some e \<Rightarrow> Panics (thrownException (ex_val e)) (vm\<lparr>halt := False, pc := - 1\<rparr>))"

definition finally_part :: "runtime \<Rightarrow> tryInstr \<Rightarrow> int \<Rightarrow> Exception option \<Rightarrow> vm \<Rightarrow> event list \<times> outcome" where
  "finally_part R t o1 ex vm =
     (if finallyOffset t > 0 then
        (let pc0 = pc vm in
         case run R (vm\<lparr>pc := o1 + finallyOffset t\<rparr>) of
           Panics p vm1 \<Rightarrow> ([RunFinally], Panics p vm1)
         | Returns vm1 \<Rightarrow>
             (case prg vm1 of
                None \<Rightarrow> ([RunFinally], Panics nilDereference vm1)
              | Some P \<Rightarrow>
                  (if 0 \<le> pc vm1 \<and> pc vm1 < int (length (code P)) then
                     (if code P ! nat (pc vm1) = retFinally
                      then ([RunFinally], try_end ex (vm1\<lparr>pc := pc0\<rparr>))
                      else ([RunFinally], try_end None vm1))
                   else ([RunFinally], Panics indexOutOfRange vm1))))
      else ([], try_end ex vm))"

definition try_exec :: "nat \<Rightarrow> runtime \<Rightarrow> tryInstr \<Rightarrow> vm \<Rightarrow> (event list \<times> outcome) option" where
  "try_exec k R t vm =
     (case try_catch_part k R t vm of
        None \<Rightarrow> None
      | Some (tr, Repanics p vm1) \<Rightarrow> Some (tr, Panics p vm1)
      | Some (tr, Caught ex vm1) \<Rightarrow>
          (case finally_part R t (pc vm) ex vm1 of (tr', r) \<Rightarrow> Some (tr @ tr', r)))"

text \<open>\<^verbatim>\<open>func (_enumPopClose) exec(vm *vm)\<close>\<close>

definition enumPopClose_exec :: "runtime \<Rightarrow> vm \<Rightarrow> event list \<times> outcome" where
  "enumPopClose_exec R vm =
     (if iterStack vm = [] then ([], Panics indexOutOfRange vm)
      else
        (let item = last (iterStack vm);
             vm1 = vm\<lparr>iterStack := butlast (iterStack vm)\<rparr>
         in case item_iter item of
              None \<Rightarrow> ([], Returns (vm1\<lparr>pc := pc vm1 + 1\<rparr>))
            | Some it \<Rightarrow>
                (case returnIter R it vm1 of
                   Panics p vm2 \<Rightarrow> ([Close it], Panics p vm2)
                 | Returns vm2 \<Rightarrow> ([Close it], Returns (vm2\<lparr>pc := pc vm2 + 1\<rparr>)))))"

text \<open>The iterator records that are open in a part of the iterator stack.\<close>

fun open_iters :: "iterStackItem list \<Rightarrow> nat list" where
  "open_iters [] = []"
| "open_iters (item # rest) =
     (case item_iter item of None \<Rightarrow> open_iters rest | Some it \<Rightarrow> it # open_iters rest)"

text \<open>
  What the unwinding asks of \<^verbatim>\<open>returnIter\<close>, which is outside \<^verbatim>\<open>vm.go\<close>: closing an
  iterator leaves the iterator stack at the length it found, and when it raises, it raises
  an error that \<^verbatim>\<open>vm.try\<close> catches and leaves the reference stack no shorter.
\<close>

definition orderlyClose :: "runtime \<Rightarrow> bool" where
  "orderlyClose R =
     (\<forall>it v. case returnIter R it v of
        Returns v' \<Rightarrow> length (iterStack v') = length (iterStack v)
      | Panics p v' \<Rightarrow> length (iterStack v') = length (iterStack v)
                      \<and> length (refStack v) \<le> length (refStack v')
                      \<and> (\<exists>e. recovered R p = Inr e))"

text \<open>
  Examples: a program of six instructions without \<^verbatim>\<open>retFinally\<close>, a try-region with no
  catch block whose finally block starts three instructions on, and a runtime whose dispatch
  loop throws the number 7 from the try block (at instruction 1) and leaves the finally
  block by a jump to instruction 5.
\<close>

definition exampleProgram :: Program where
  "exampleProgram = \<lparr>prg_funcName = [], code = replicate 6 (otherInstruction 0)\<rparr>"

definition exampleTry :: tryInstr where
  "exampleTry = \<lparr>catchOffset = 0, finallyOffset = 3\<rparr>"

definition exampleRun :: "vm \<Rightarrow> outcome" where
  "exampleRun vm =
     (if pc vm = 1 then Panics (thrownValue (valueInt 7)) vm
      else Returns (vm\<lparr>prg := Some exampleProgram, pc := 5, halt := True\<rparr>))"

text \<open>An item of the iterator stack with the open iterator record 5.\<close>

definition exampleItem :: iterStackItem where
  "exampleItem = \<lparr>item_val = None, item_f = None, item_iter = Some 5\<rparr>"

text \<open>A function that opens the iterator record 5 and then throws the number 7.\<close>

definition exampleBody :: "vm \<Rightarrow> outcome" where
  "exampleBody vm =
     Panics (thrownValue (valueInt 7))
       (vm\<lparr>iterStack := iterStack vm @ [exampleItem]\<rparr>)"

definition exampleTryVm :: vm where
  "exampleTryVm = exampleVm\<lparr>prg := Some exampleProgram\<rparr>"

definition exampleTryRuntime :: runtime where
  "exampleTryRuntime = exampleRuntime\<lparr>run := exampleRun\<rparr>"

text \<open>
  What the try-region asks of the code around it.  A run of the dispatch loop from a state
  is a script completion when it returns, or panics with a value that \<^verbatim>\<open>vm.try\<close> catches
  and leaves the iterator and the reference stack no shorter than it found them.  It leaves
  the finally block early when it returns at an instruction other than \<^verbatim>\<open>retFinally\<close>, and
  reaches the end of the block when it returns at \<^verbatim>\<open>retFinally\<close>.  A close operation that
  returns keeps the stack pointer and leaves the reference stack no shorter.
\<close>

definition scriptCompletion :: "runtime \<Rightarrow> vm \<Rightarrow> bool" where
  "scriptCompletion R v =
     (case run R v of
        Returns v' \<Rightarrow> True
      | Panics x v' \<Rightarrow> (\<exists>e. recovered R x = Inr e)
                      \<and> length (iterStack v) \<le> length (iterStack v')
                      \<and> length (refStack v) \<le> length (refStack v'))"

definition leavesEarly :: "runtime \<Rightarrow> vm \<Rightarrow> bool" where
  "leavesEarly R v =
     (case run R v of
        Returns v' \<Rightarrow>
          (case prg v' of
             Some P \<Rightarrow> 0 \<le> pc v' \<and> pc v' < int (length (code P)) \<and> code P ! nat (pc v') \<noteq> retFinally
           | None \<Rightarrow> False)
      | Panics x v' \<Rightarrow> False)"

definition reachesEnd :: "runtime \<Rightarrow> vm \<Rightarrow> bool" where
  "reachesEnd R v =
     (case run R v of
        Returns v' \<Rightarrow>
          (case prg v' of
             Some P \<Rightarrow> 0 \<le> pc v' \<and> pc v' < int (length (code P)) \<and> code P ! nat (pc v') = retFinally
           | None \<Rightarrow> False)
      | Panics x v' \<Rightarrow> False)"

definition closeKeepsStacks :: "runtime \<Rightarrow> bool" where
  "closeKeepsStacks R =
     (\<forall>it v. case returnIter R it v of
        Returns v' \<Rightarrow> sp v' = sp v \<and> length (refStack v) \<le> length (refStack v')
      | Panics p v' \<Rightarrow> True)"

text \<open>
  A runtime whose dispatch loop is stopped in the try block (at instruction 1) by an
  uncatchable condition.
\<close>

definition exampleUncatchableRun :: "vm \<Rightarrow> outcome" where
  "exampleUncatchableRun vm =
     (if pc vm = 1 then Panics uncatchableException vm
      else Returns (vm\<lparr>prg := Some exampleProgram, pc := 5, halt := True\<rparr>))"

definition exampleUncatchableRuntime :: runtime where
  "exampleUncatchableRuntime = exampleRuntime\<lparr>run := exampleUncatchableRun\<rparr>"

section \<open>Properties of the scope records\<close>

lemma names_lookup_append:
  "names_lookup (Some (m @ [(name, i)])) name \<noteq> None"
  by (cases "map_of m name") (simp_all add: map_add_def)

lemma createBinding_present:
  "names_lookup (names (createBinding M s name deletable)) name \<noteq> None"
proof (cases "names_lookup (names s) name")
  case None
  then show ?thesis
    by (cases "names s")
       (simp_all add: createBinding_def Let_def map_add_def split: option.splits)
next
  case (Some i)
  then show ?thesis
    by (cases "names s") (simp_all add: createBinding_def)
qed

lemma createLexBinding_present:
  "names_lookup (names (createLexBinding M s name isConst)) name \<noteq> None"
proof (cases "names_lookup (names s) name")
  case None
  then show ?thesis
    by (cases "names s")
       (simp_all add: createLexBinding_def Let_def map_add_def split: option.splits)
next
  case (Some i)
  then show ?thesis
    by (cases "names s") (simp_all add: createLexBinding_def)
qed

lemma createBinding_unchanged:
  assumes "names_lookup (names s) name \<noteq> None"
  shows "createBinding M s name deletable = s"
  using assms by (cases "names s") (auto simp: createBinding_def)

lemma createLexBinding_unchanged:
  assumes "names_lookup (names s) name \<noteq> None"
  shows "createLexBinding M s name isConst = s"
  using assms by (cases "names s") (auto simp: createLexBinding_def)

text \<open>
  Claim C10.  \<^verbatim>\<open>createBinding\<close> and \<^verbatim>\<open>createLexBinding\<close> are idempotent per name: when
  the name is already present in the name-to-slot map of a scope record, calling either
  operation with that name returns the scope record unchanged, whatever the flags: no slot is
  appended to the values array, and the index word with its kind bits and the value of the
  existing slot stay as they were.  In particular a second call after a first one, of either
  operation, changes nothing.
\<close>

theorem createBinding_createLexBinding_idempotent:
  "(names_lookup (names s) name \<noteq> None \<longrightarrow>
      createBinding M s name deletable = s \<and> createLexBinding M s name isConst = s)
   \<and> createBinding M (createBinding M s name d1) name d2 = createBinding M s name d1
   \<and> createLexBinding M (createLexBinding M s name c1) name c2 = createLexBinding M s name c1
   \<and> createLexBinding M (createBinding M s name d1) name c2 = createBinding M s name d1
   \<and> createBinding M (createLexBinding M s name c1) name d2 = createLexBinding M s name c1"
  using createBinding_unchanged [where s = s and name = name and M = M and deletable = deletable]
        createLexBinding_unchanged [where s = s and name = name and M = M and isConst = isConst]
        createBinding_unchanged [OF createBinding_present, where M = M and deletable = d2]
        createLexBinding_unchanged [OF createLexBinding_present, where M = M and isConst = c2]
        createLexBinding_unchanged [OF createBinding_present, where M = M and isConst = c2]
        createBinding_unchanged [OF createLexBinding_present, where M = M and deletable = d2]
  by simp

theorem createBinding_createLexBinding_idempotent_witness:
  "names_lookup (names (createLexBinding exampleMasks emptyStash ''x'' False)) ''x'' \<noteq> None
   \<and> createBinding exampleMasks (createLexBinding exampleMasks emptyStash ''x'' False) ''x'' True
       = createLexBinding exampleMasks emptyStash ''x'' False
   \<and> createLexBinding exampleMasks (createLexBinding exampleMasks emptyStash ''x'' False) ''x'' True
       = createLexBinding exampleMasks emptyStash ''x'' False
   \<and> values_s (createBinding exampleMasks
         (createLexBinding exampleMasks emptyStash ''x'' False) ''x'' True) = [None]
   \<and> names (createBinding exampleMasks
         (createLexBinding exampleMasks emptyStash ''x'' False) ''x'' True) = Some [(''x'', 0)]"
  using createBinding_createLexBinding_idempotent
          [of "createLexBinding exampleMasks emptyStash ''x'' False" "''x''" exampleMasks True True]
  by (simp add: createLexBinding_def emptyStash_def)

lemma getByName_uninitialized:
  assumes "obj s = None" and "names_lookup (names s) name = Some i"
    and "i AND maskVar M = 0"
    and "unat (i AND NOT (maskTyp M)) < length (values_s s)"
    and "values_s s ! unat (i AND NOT (maskTyp M)) = None"
  shows "getByName M K s name = Inl errAccessBeforeInit"
  using assms by (simp add: getByName_def slot_read_def)

lemma getRefByName_uninitialized:
  assumes "obj s = None" and "names_lookup (names s) name = Some i"
    and "i AND maskVar M = 0"
    and "unat (i AND NOT (maskTyp M)) < length (values_s s)"
    and "values_s s ! unat (i AND NOT (maskTyp M)) = None"
  shows "\<exists>r. getRefByName M K s name strict = Some r
          \<and> ref_get K r (values_s s) = Inl errAccessBeforeInit
          \<and> ref_set K r v (values_s s) =
               (if i AND maskConst M = 0 then Inl errAccessBeforeInit
                else if strict \<or> i AND maskStrict M \<noteq> 0 then Inl errAssignToConst
                else Inr (values_s s))"
  using assms
  by (simp add: getRefByName_def slot_read_def stashRefLex_get_def stashRefLex_set_def
        stashRefConst_set_def)

text \<open>
  Claim C5, as the code has it.  Take a slot-backed scope record in which the name is
  resolved to a let/const binding (the var bit of its index word is clear) whose slot still
  holds the uninitialized sentinel.  Reading it, by name (\<^verbatim>\<open>getByName\<close>) or through the
  reference the scope resolution returns (\<^verbatim>\<open>getRefByName\<close>, then \<^verbatim>\<open>get\<close>), raises the
  access-before-initialization error: it produces no value, so never undefined, and the error
  is not the unresolved-reference error.  Writing through the resolved reference raises the
  access-before-initialization error when the binding is a let binding.  For a const binding
  the write never looks at the slot: it raises the assignment-to-constant error when the
  reference is strict, and otherwise leaves the slots as they are; in neither case is the
  unresolved-reference error raised.
\<close>

theorem uninitialized_lex_access:
  assumes "obj s = None" and "names_lookup (names s) name = Some i"
    and "i AND maskVar M = 0"
    and "unat (i AND NOT (maskTyp M)) < length (values_s s)"
    and "values_s s ! unat (i AND NOT (maskTyp M)) = None"
  shows "getByName M K s name = Inl errAccessBeforeInit
       \<and> getByName M K s name \<noteq> Inr (Some v_undefined, True)
       \<and> getByName M K s name \<noteq> Inl (throwReferenceError nm)
       \<and> (\<exists>r. getRefByName M K s name strict = Some r
            \<and> ref_get K r (values_s s) = Inl errAccessBeforeInit
            \<and> ref_get K r (values_s s) \<noteq> Inl (throwReferenceError nm)
            \<and> ref_set K r v (values_s s) \<noteq> Inl (throwReferenceError nm)
            \<and> ref_set K r v (values_s s) =
                 (if i AND maskConst M = 0 then Inl errAccessBeforeInit
                  else if strict \<or> i AND maskStrict M \<noteq> 0 then Inl errAssignToConst
                  else Inr (values_s s)))"
proof -
  have g: "getByName M K s name = Inl errAccessBeforeInit"
    using assms by (rule getByName_uninitialized)
  obtain r where r: "getRefByName M K s name strict = Some r"
      "ref_get K r (values_s s) = Inl errAccessBeforeInit"
      "ref_set K r v (values_s s) =
         (if i AND maskConst M = 0 then Inl errAccessBeforeInit
          else if strict \<or> i AND maskStrict M \<noteq> 0 then Inl errAssignToConst
          else Inr (values_s s))"
    using getRefByName_uninitialized [OF assms] by blast
  have "ref_set K r v (values_s s) \<noteq> Inl (throwReferenceError nm)"
    by (simp add: r(3) throwReferenceError_def)
  with g r show ?thesis
    by (auto simp: throwReferenceError_def)
qed

theorem uninitialized_lex_access_witness:
  "obj (createLexBinding exampleMasks emptyStash ''x'' False) = None
   \<and> names_lookup (names (createLexBinding exampleMasks emptyStash ''x'' False)) ''x'' = Some 0
   \<and> values_s (createLexBinding exampleMasks emptyStash ''x'' False) = [None]
   \<and> getByName exampleMasks exampleObjops (createLexBinding exampleMasks emptyStash ''x'' False) ''x''
       = Inl errAccessBeforeInit
   \<and> getRefByName exampleMasks exampleObjops
         (createLexBinding exampleMasks emptyStash ''x'' False) ''x'' False
       = Some (StashRefLex \<lparr>ref_n = ''x'', ref_idx = 0\<rparr>)
   \<and> ref_get exampleObjops (StashRefLex \<lparr>ref_n = ''x'', ref_idx = 0\<rparr>) [None] = Inl errAccessBeforeInit
   \<and> ref_set exampleObjops (StashRefLex \<lparr>ref_n = ''x'', ref_idx = 0\<rparr>) (Some (valueInt 1)) [None]
       = Inl errAccessBeforeInit"
  using uninitialized_lex_access
          [of "createLexBinding exampleMasks emptyStash ''x'' False" "''x''" 0 exampleMasks
              exampleObjops "''y''" False "Some (valueInt 1)"]
  by (simp add: createLexBinding_def emptyStash_def exampleMasks_def getRefByName_def)

text \<open>
  The claim as stated fails for const bindings: the scope record holds the const binding
  \<open>x\<close>, created by \<^verbatim>\<open>createLexBinding\<close> and still uninitialized; the write through the
  reference that the scope resolution returns raises the assignment-to-constant error, not
  the access-before-initialization error.
\<close>

theorem uninitialized_const_write_counterexample:
  "values_s (createLexBinding exampleMasks emptyStash ''x'' True) = [None]
   \<and> getRefByName exampleMasks exampleObjops
         (createLexBinding exampleMasks emptyStash ''x'' True) ''x'' False
       = Some (StashRefConst \<lparr>ref_n = ''x'', ref_idx = 0\<rparr> True)
   \<and> ref_set exampleObjops (StashRefConst \<lparr>ref_n = ''x'', ref_idx = 0\<rparr> True) (Some (valueInt 1)) [None]
       = Inl errAssignToConst
   \<and> ref_set exampleObjops (StashRefConst \<lparr>ref_n = ''x'', ref_idx = 0\<rparr> True) (Some (valueInt 1)) [None]
       \<noteq> Inl errAccessBeforeInit"
  by (simp add: getRefByName_def createLexBinding_def emptyStash_def exampleMasks_def
        stashRefConst_set_def)

section \<open>Properties of the frame manager\<close>

text \<open>
  Claim C2.  For a machine configured with a maximum call-frame count (a non-zero
  \<^verbatim>\<open>maxCallStackSize\<close>), saving a frame raises the range error exactly when the frame array
  together with the running frame has reached the configured count; in particular it raises
  when the frame array itself has that length.  The result is a function of the state, and
  the failed save leaves the machine, and so the frame array, as it was: the error is raised
  before the new entry is appended.  Below the threshold the save appends exactly one entry.
\<close>

theorem pushCtx_enforces_limit:
  assumes "maxCallStackSize vm \<noteq> 0"
  shows "(maxCallStackSize vm \<le> int (length (callStack vm)) + 1 \<longrightarrow>
            pushCtx vm = Panics (rangeError ''Maximum call stack size exceeded'') vm)
       \<and> (int (length (callStack vm)) = maxCallStackSize vm \<longrightarrow>
            pushCtx vm = Panics (rangeError ''Maximum call stack size exceeded'') vm)
       \<and> (int (length (callStack vm)) + 1 < maxCallStackSize vm \<longrightarrow>
            pushCtx vm = Returns (vm\<lparr>callStack := callStack vm @ [saveCtx vm zeroCtx]\<rparr>))"
  using assms by (simp add: pushCtx_def)

theorem pushCtx_enforces_limit_witness:
  "maxCallStackSize (exampleVm\<lparr>callStack := [zeroCtx, zeroCtx, zeroCtx]\<rparr>) \<noteq> 0
   \<and> maxCallStackSize (exampleVm\<lparr>callStack := [zeroCtx, zeroCtx, zeroCtx]\<rparr>)
       \<le> int (length (callStack (exampleVm\<lparr>callStack := [zeroCtx, zeroCtx, zeroCtx]\<rparr>))) + 1
   \<and> pushCtx (exampleVm\<lparr>callStack := [zeroCtx, zeroCtx, zeroCtx]\<rparr>)
       = Panics (rangeError ''Maximum call stack size exceeded'')
           (exampleVm\<lparr>callStack := [zeroCtx, zeroCtx, zeroCtx]\<rparr>)"
  using pushCtx_enforces_limit [of "exampleVm\<lparr>callStack := [zeroCtx, zeroCtx, zeroCtx]\<rparr>"]
  by (simp add: exampleVm_def)

section \<open>Properties of the numeric instructions\<close>

lemma binary_exec_operands:
  assumes "2 \<le> sp vm" and "sp vm \<le> int (length (stack vm))"
    and "stack vm ! nat (sp vm - 2) = Some a" and "stack vm ! nat (sp vm - 1) = Some b"
  shows "binary_exec opr vm =
           Returns (vm\<lparr>stack := (stack vm)[nat (sp vm - 2) := Some (opr a b)],
                       sp := sp vm - 1, pc := pc vm + 1\<rparr>)"
  using assms by (simp add: binary_exec_def operand_def)

lemma div_result_nan:
  "IsNaN l \<or> IsNaN r \<or> IsInf l 0 \<and> IsInf r 0 \<or> fzero l \<and> fzero r \<Longrightarrow> div_result N l r = v_NaN"
  by (auto simp: div_result_def)

lemma div_result_inf_left:
  "IsInf l 0 \<Longrightarrow> \<not> IsNaN r \<Longrightarrow> \<not> IsInf r 0 \<Longrightarrow>
     div_result N l r = (if Signbit l = Signbit r then v_positiveInf else v_negativeInf)"
  by (cases l; cases r) (simp_all add: div_result_def fzero_def)

lemma div_result_inf_right:
  "\<not> IsNaN l \<Longrightarrow> \<not> IsInf l 0 \<Longrightarrow> IsInf r 0 \<Longrightarrow>
     div_result N l r = (if Signbit l = Signbit r then v_positiveZero else v_negativeZero)"
  by (cases l; cases r) (simp_all add: div_result_def fzero_def)

lemma div_result_zero_right:
  "\<not> IsNaN l \<Longrightarrow> \<not> IsInf l 0 \<Longrightarrow> \<not> fzero l \<Longrightarrow> fzero r \<Longrightarrow>
     div_result N l r = (if Signbit l = Signbit r then v_positiveInf else v_negativeInf)"
  by (cases l; cases r) (simp_all add: div_result_def fzero_def)

lemma div_result_zero_left:
  "fzero l \<Longrightarrow> \<not> IsNaN r \<Longrightarrow> \<not> IsInf r 0 \<Longrightarrow> \<not> fzero r \<Longrightarrow>
     div_result N l r = (if Signbit l = Signbit r then v_positiveZero else v_negativeZero)"
  by (cases l; cases r)
     (auto simp add: div_result_def fzero_def fval_def floatToValue_def v_positiveZero_def
        v_negativeZero_def split: if_splits)

lemma div_result_rounding_free:
  "IsNaN l \<or> IsNaN r \<or> IsInf l 0 \<or> IsInf r 0 \<or> fzero l \<or> fzero r \<Longrightarrow>
     div_result N l r = div_result N' l r"
  by (cases l; cases r) (auto simp add: div_result_def fzero_def fval_def)

lemma div_result_examples:
  "div_result N (ToFloat N (valueInt 1)) (ToFloat N (valueInt 0)) = v_positiveInf"
  "div_result N (ToFloat N (valueInt (- 1))) (ToFloat N (valueInt 0)) = v_negativeInf"
  "div_result N (ToFloat N (valueInt 0)) (ToFloat N (valueInt 0)) = v_NaN"
  "div_result N (ToFloat N v_negativeZero) (ToFloat N (valueInt 1)) = v_negativeZero"
  by (simp_all add: div_result_def float64_of_int64_def maxInt_def fzero_def fval_def
        v_negativeZero_def floatToValue_def)

text \<open>
  Claim C3.  The divide instruction replaces its two operands by \<open>div_result\<close> of their
  float conversions, and \<open>div_result\<close> decides the special cases before the generic float
  division: the result is NaN when either operand is NaN, when both are infinite and when
  both are zero; an infinite dividend gives an infinity, an infinite divisor a zero, a zero
  divisor under a non-zero dividend an infinity and a zero dividend over a finite non-zero
  divisor a zero, each with the sign of the quotient (positive when the sign bits agree).
  In all these cases the result does not depend on how the generic division rounds.
  So 1/0 is +Infinity, -1/0 is -Infinity, 0/0 is NaN and -0/1 is negative zero.
\<close>

theorem div_special_case_table:
  "(2 \<le> sp vm \<and> sp vm \<le> int (length (stack vm))
      \<and> stack vm ! nat (sp vm - 2) = Some a \<and> stack vm ! nat (sp vm - 1) = Some b \<longrightarrow>
      div_exec N vm =
        Returns (vm\<lparr>stack := (stack vm)[nat (sp vm - 2) :=
                                 Some (div_result N (ToFloat N a) (ToFloat N b))],
                    sp := sp vm - 1, pc := pc vm + 1\<rparr>))
   \<and> (IsNaN l \<or> IsNaN r \<or> IsInf l 0 \<and> IsInf r 0 \<or> fzero l \<and> fzero r \<longrightarrow>
        div_result N l r = v_NaN)
   \<and> (IsInf l 0 \<and> \<not> IsNaN r \<and> \<not> IsInf r 0 \<longrightarrow>
        div_result N l r = (if Signbit l = Signbit r then v_positiveInf else v_negativeInf))
   \<and> (\<not> IsNaN l \<and> \<not> IsInf l 0 \<and> IsInf r 0 \<longrightarrow>
        div_result N l r = (if Signbit l = Signbit r then v_positiveZero else v_negativeZero))
   \<and> (\<not> IsNaN l \<and> \<not> IsInf l 0 \<and> \<not> fzero l \<and> fzero r \<longrightarrow>
        div_result N l r = (if Signbit l = Signbit r then v_positiveInf else v_negativeInf))
   \<and> (fzero l \<and> \<not> IsNaN r \<and> \<not> IsInf r 0 \<and> \<not> fzero r \<longrightarrow>
        div_result N l r = (if Signbit l = Signbit r then v_positiveZero else v_negativeZero))
   \<and> (IsNaN l \<or> IsNaN r \<or> IsInf l 0 \<or> IsInf r 0 \<or> fzero l \<or> fzero r \<longrightarrow>
        div_result N l r = div_result N' l r)
   \<and> div_result N (ToFloat N (valueInt 1)) (ToFloat N (valueInt 0)) = v_positiveInf
   \<and> div_result N (ToFloat N (valueInt (- 1))) (ToFloat N (valueInt 0)) = v_negativeInf
   \<and> div_result N (ToFloat N (valueInt 0)) (ToFloat N (valueInt 0)) = v_NaN
   \<and> div_result N (ToFloat N v_negativeZero) (ToFloat N (valueInt 1)) = v_negativeZero"
proof -
  have "2 \<le> sp vm \<and> sp vm \<le> int (length (stack vm))
      \<and> stack vm ! nat (sp vm - 2) = Some a \<and> stack vm ! nat (sp vm - 1) = Some b \<longrightarrow>
      div_exec N vm =
        Returns (vm\<lparr>stack := (stack vm)[nat (sp vm - 2) :=
                                 Some (div_result N (ToFloat N a) (ToFloat N b))],
                    sp := sp vm - 1, pc := pc vm + 1\<rparr>)"
    by (simp add: div_exec_def binary_exec_operands)
  moreover have "IsNaN l \<or> IsNaN r \<or> IsInf l 0 \<and> IsInf r 0 \<or> fzero l \<and> fzero r \<longrightarrow>
        div_result N l r = v_NaN"
    using div_result_nan by blast
  moreover have "IsInf l 0 \<and> \<not> IsNaN r \<and> \<not> IsInf r 0 \<longrightarrow>
        div_result N l r = (if Signbit l = Signbit r then v_positiveInf else v_negativeInf)"
    using div_result_inf_left by blast
  moreover have "\<not> IsNaN l \<and> \<not> IsInf l 0 \<and> IsInf r 0 \<longrightarrow>
        div_result N l r = (if Signbit l = Signbit r then v_positiveZero else v_negativeZero)"
    using div_result_inf_right by blast
  moreover have "\<not> IsNaN l \<and> \<not> IsInf l 0 \<and> \<not> fzero l \<and> fzero r \<longrightarrow>
        div_result N l r = (if Signbit l = Signbit r then v_positiveInf else v_negativeInf)"
    using div_result_zero_right by blast
  moreover have "fzero l \<and> \<not> IsNaN r \<and> \<not> IsInf r 0 \<and> \<not> fzero r \<longrightarrow>
        div_result N l r = (if Signbit l = Signbit r then v_positiveZero else v_negativeZero)"
    using div_result_zero_left by blast
  moreover have "IsNaN l \<or> IsNaN r \<or> IsInf l 0 \<or> IsInf r 0 \<or> fzero l \<or> fzero r \<longrightarrow>
        div_result N l r = div_result N' l r"
    using div_result_rounding_free by blast
  ultimately show ?thesis
    using div_result_examples [of N] by blast
qed

theorem div_special_case_table_witness:
  "div_exec exampleNumops (exampleVm\<lparr>stack := [Some (valueInt 1), Some (valueInt 0)], sp := 2\<rparr>)
     = Returns (exampleVm\<lparr>stack := [Some v_positiveInf, Some (valueInt 0)], sp := 1, pc := 1\<rparr>)
   \<and> div_result exampleNumops FNaN (FFin False 1) = v_NaN
   \<and> div_result exampleNumops (FInf True) (FFin False 2) = v_negativeInf
   \<and> div_result exampleNumops (FFin True 3) (FInf True) = v_positiveZero
   \<and> div_result exampleNumops (FFin True 3) (FFin False 0) = v_negativeInf
   \<and> div_result exampleNumops (FFin True 0) (FFin False 5) = v_negativeZero"
proof -
  let ?vm = "exampleVm\<lparr>stack := [Some (valueInt 1), Some (valueInt 0)], sp := 2\<rparr>"
  have 1: "div_exec exampleNumops ?vm
     = Returns (exampleVm\<lparr>stack := [Some v_positiveInf, Some (valueInt 0)], sp := 1, pc := 1\<rparr>)"
    using div_special_case_table
            [of ?vm "valueInt 1" "valueInt 0" exampleNumops]
    by (simp add: exampleVm_def)
  have 2: "div_result exampleNumops FNaN (FFin False 1) = v_NaN"
    using div_special_case_table [where l = FNaN and r = "FFin False 1" and N = exampleNumops]
    by simp
  have 3: "div_result exampleNumops (FInf True) (FFin False 2) = v_negativeInf"
    using div_special_case_table
            [where l = "FInf True" and r = "FFin False 2" and N = exampleNumops]
    by simp
  have 4: "div_result exampleNumops (FFin True 3) (FInf True) = v_positiveZero"
    using div_special_case_table
            [where l = "FFin True 3" and r = "FInf True" and N = exampleNumops]
    by simp
  have 5: "div_result exampleNumops (FFin True 3) (FFin False 0) = v_negativeInf"
    using div_special_case_table
            [where l = "FFin True 3" and r = "FFin False 0" and N = exampleNumops]
    by (simp add: fzero_def fval_def)
  have 6: "div_result exampleNumops (FFin True 0) (FFin False 5) = v_negativeZero"
    using div_special_case_table
            [where l = "FFin True 0" and r = "FFin False 5" and N = exampleNumops]
    by (simp add: fzero_def fval_def)
  from 1 2 3 4 5 6 show ?thesis by blast
qed

lemma mul_negative_zero:
  "mul_result N (valueInt 0) (valueInt (- 1)) = v_negativeZero"
  "mul_result N (valueInt (- 1)) (valueInt 0) = v_negativeZero"
  "mul_result N (valueInt 1) (valueInt 0) = valueInt 0"
  "fzero (ToFloat N v_negativeZero) \<and> Signbit (ToFloat N v_negativeZero)"
  "v_negativeZero \<noteq> valueInt 0"
  by (simp_all add: mul_result_def assertInt64_def intToValue_def maxInt_def v_negativeZero_def
        fzero_def fval_def)

text \<open>
  Claim C4.  The products 0 * -1 and -1 * 0 are negative zero, and 1 * 0 is the integer 0
  (\<open>mul_negative_zero\<close>).  The overflow check of the integer fast path misses one case:
  for the operands -1 and -9223372036854775808 the wrapped product is -9223372036854775808,
  Go's quotient of that by -1 wraps to -9223372036854775808 again and equals the right
  operand, so the reverse division accepts the wrapped product, and the instruction returns
  -9223372036854775808 (as a float, from \<^verbatim>\<open>intToValue\<close>).  The product is
  9223372036854775808, which is what the float multiplication of the overflow path gives.
  With the operands in the other order the check detects the overflow.
\<close>

theorem mul_overflow_undetected:
  "sint (- 1 :: int64) * sint (- 9223372036854775808 :: int64) = 9223372036854775808
   \<and> (- 1 :: int64) * (- 9223372036854775808) = - 9223372036854775808
   \<and> int64_div ((- 1) * (- 9223372036854775808)) (- 1) = - 9223372036854775808
   \<and> mul_result exampleNumops (valueInt (- 1)) (valueInt64 (- 9223372036854775808))
       = valueFloat (FFin True 9223372036854775808)
   \<and> mul_result exampleNumops (valueInt (- 1)) (valueInt (- 9223372036854775808))
       = valueFloat (FFin True 9223372036854775808)
   \<and> floatToValue (fmul (round64 exampleNumops) (ToFloat exampleNumops (valueInt (- 1)))
         (ToFloat exampleNumops (valueInt64 (- 9223372036854775808))))
       = valueFloat (FFin False 9223372036854775808)
   \<and> mul_result exampleNumops (valueInt64 (- 9223372036854775808)) (valueInt (- 1))
       = valueFloat (FFin False 9223372036854775808)"
  by (simp add: mul_result_def assertInt64_def exampleNumops_def int64_div_def intToValue_def
        float64_of_int64_def maxInt_def exactRound_def floatToValue_def fzero_def fval_def)

section \<open>Properties of the relational instructions\<close>

lemma compareTo_lexicographic:
  "(compareTo xs ys < 0) = ord.lexordp (\<lambda>a b. (of_char a :: nat) < of_char b) xs ys"
  by (induction xs ys rule: compareTo.induct) auto

lemma cmp_floats_nan:
  "cmp_floats N px (valueFloat FNaN) = v_undefined"
  "cmp_floats N (valueFloat FNaN) py = v_undefined"
  by (simp_all add: cmp_floats_def)

lemma cmp_nan:
  "cmp N px (valueFloat FNaN) = v_undefined"
  "cmp N (valueFloat FNaN) py = v_undefined"
proof -
  show "cmp N px (valueFloat FNaN) = v_undefined"
    by (cases px) (simp_all add: cmp_floats_nan)
  show "cmp N (valueFloat FNaN) py = v_undefined"
    by (cases py) (simp_all add: cmp_floats_nan)
qed

lemma cmp_otherwise:
  assumes "\<not> (\<exists>xs ys. px = valueString xs \<and> py = valueString ys)"
    and "\<not> (\<exists>x y. px = valueInt x \<and> py = valueInt y)"
    and "\<not> (\<exists>x y. px = valueInt64 x \<and> py = valueInt64 y)"
  shows "cmp N px py = cmp_floats N px py"
  using assms by (cases px; cases py) simp_all

lemma relational_nan:
  "op_lt_result N (valueFloat FNaN) r = valueFalse"
  "op_lt_result N l (valueFloat FNaN) = valueFalse"
  "op_lte_result N (valueFloat FNaN) r = valueFalse"
  "op_lte_result N l (valueFloat FNaN) = valueFalse"
  "op_gt_result N (valueFloat FNaN) r = valueFalse"
  "op_gt_result N l (valueFloat FNaN) = valueFalse"
  "op_gte_result N (valueFloat FNaN) r = valueFalse"
  "op_gte_result N l (valueFloat FNaN) = valueFalse"
  by (simp_all add: op_lt_result_def op_lte_result_def op_gt_result_def op_gte_result_def
        Let_def cmp_nan cmp_floats_nan)

lemma bool_value_simps:
  "bool_value b \<noteq> v_undefined"
  "(bool_value b = valueTrue) = b"
  "bool_value True = valueTrue"
  "bool_value False = valueFalse"
  by (simp_all add: bool_value_def v_undefined_def valueTrue_def valueFalse_def)

lemma bool_value_not:
  "(if b then valueFalse else valueTrue) = bool_value (\<not> b)"
  by (simp add: bool_value_def)

lemma relational_strings:
  assumes "toPrimitiveNumber N l = valueString xs" and "toPrimitiveNumber N r = valueString ys"
  shows "op_lt_result N l r = bool_value (compareTo xs ys < 0)"
    and "op_lte_result N l r = bool_value (\<not> compareTo ys xs < 0)"
    and "op_gt_result N l r = bool_value (compareTo ys xs < 0)"
    and "op_gte_result N l r = bool_value (\<not> compareTo xs ys < 0)"
  using assms
  by (simp_all add: op_lt_result_def op_lte_result_def op_gt_result_def op_gte_result_def
        Let_def bool_value_simps bool_value_not)

lemma relational_valueInt:
  assumes "toPrimitiveNumber N l = valueInt x" and "toPrimitiveNumber N r = valueInt y"
  shows "op_lt_result N l r = bool_value (sint x < sint y)"
    and "op_lte_result N l r = bool_value (sint x \<le> sint y)"
    and "op_gt_result N l r = bool_value (sint y < sint x)"
    and "op_gte_result N l r = bool_value (sint y \<le> sint x)"
  using assms
  by (simp_all add: op_lt_result_def op_lte_result_def op_gt_result_def op_gte_result_def
        Let_def bool_value_simps bool_value_not word_sless_alt not_less)

lemma relational_valueInt64:
  assumes "toPrimitiveNumber N l = valueInt64 x" and "toPrimitiveNumber N r = valueInt64 y"
  shows "op_lt_result N l r = bool_value (sint x < sint y)"
    and "op_lte_result N l r = bool_value (sint x \<le> sint y)"
    and "op_gt_result N l r = bool_value (sint y < sint x)"
    and "op_gte_result N l r = bool_value (sint y \<le> sint x)"
  using assms
  by (simp_all add: op_lt_result_def op_lte_result_def op_gt_result_def op_gte_result_def
        Let_def bool_value_simps bool_value_not word_sless_alt not_less)

lemma cmp_floats_result:
  "(if cmp_floats N px py = v_undefined then valueFalse else cmp_floats N px py)
     = (if IsNaN (ToFloat N px) \<or> IsNaN (ToFloat N py) then valueFalse
        else bool_value (flt (ToFloat N px) (ToFloat N py)))"
  "(if cmp_floats N px py = v_undefined \<or> cmp_floats N px py = valueTrue then valueFalse
    else valueTrue)
     = (if IsNaN (ToFloat N px) \<or> IsNaN (ToFloat N py) then valueFalse
        else bool_value (\<not> flt (ToFloat N px) (ToFloat N py)))"
  by (simp_all add: cmp_floats_def Let_def bool_value_simps bool_value_not)

lemma relational_floats:
  assumes "\<not> (\<exists>xs ys. toPrimitiveNumber N l = valueString xs \<and> toPrimitiveNumber N r = valueString ys)"
    and "\<not> (\<exists>x y. toPrimitiveNumber N l = valueInt x \<and> toPrimitiveNumber N r = valueInt y)"
    and "\<not> (\<exists>x y. toPrimitiveNumber N l = valueInt64 x \<and> toPrimitiveNumber N r = valueInt64 y)"
  shows "op_lt_result N l r =
           (if IsNaN (ToFloat N (toPrimitiveNumber N l)) \<or> IsNaN (ToFloat N (toPrimitiveNumber N r))
            then valueFalse
            else bool_value (flt (ToFloat N (toPrimitiveNumber N l)) (ToFloat N (toPrimitiveNumber N r))))"
    and "op_lte_result N l r =
           (if IsNaN (ToFloat N (toPrimitiveNumber N l)) \<or> IsNaN (ToFloat N (toPrimitiveNumber N r))
            then valueFalse
            else bool_value (\<not> flt (ToFloat N (toPrimitiveNumber N r)) (ToFloat N (toPrimitiveNumber N l))))"
    and "op_gt_result N l r =
           (if IsNaN (ToFloat N (toPrimitiveNumber N l)) \<or> IsNaN (ToFloat N (toPrimitiveNumber N r))
            then valueFalse
            else bool_value (flt (ToFloat N (toPrimitiveNumber N r)) (ToFloat N (toPrimitiveNumber N l))))"
    and "op_gte_result N l r =
           (if IsNaN (ToFloat N (toPrimitiveNumber N l)) \<or> IsNaN (ToFloat N (toPrimitiveNumber N r))
            then valueFalse
            else bool_value (\<not> flt (ToFloat N (toPrimitiveNumber N l)) (ToFloat N (toPrimitiveNumber N r))))"
proof -
  let ?px = "toPrimitiveNumber N l" and ?py = "toPrimitiveNumber N r"
  have a: "cmp N ?px ?py = cmp_floats N ?px ?py"
    using assms by (intro cmp_otherwise) blast+
  have b: "cmp N ?py ?px = cmp_floats N ?py ?px"
    using assms by (intro cmp_otherwise) blast+
  show "op_lt_result N l r =
           (if IsNaN (ToFloat N ?px) \<or> IsNaN (ToFloat N ?py) then valueFalse
            else bool_value (flt (ToFloat N ?px) (ToFloat N ?py)))"
    unfolding op_lt_result_def Let_def a by (rule cmp_floats_result(1))
  show "op_gte_result N l r =
           (if IsNaN (ToFloat N ?px) \<or> IsNaN (ToFloat N ?py) then valueFalse
            else bool_value (\<not> flt (ToFloat N ?px) (ToFloat N ?py)))"
    unfolding op_gte_result_def Let_def a by (rule cmp_floats_result(2))
  show "op_gt_result N l r =
           (if IsNaN (ToFloat N ?px) \<or> IsNaN (ToFloat N ?py) then valueFalse
            else bool_value (flt (ToFloat N ?py) (ToFloat N ?px)))"
    unfolding op_gt_result_def Let_def b using cmp_floats_result(1) [of N ?py ?px]
    by (simp add: disj_commute)
  show "op_lte_result N l r =
           (if IsNaN (ToFloat N ?px) \<or> IsNaN (ToFloat N ?py) then valueFalse
            else bool_value (\<not> flt (ToFloat N ?py) (ToFloat N ?px)))"
    unfolding op_lte_result_def Let_def b using cmp_floats_result(2) [of N ?py ?px]
    by (simp add: disj_commute)
qed

lemma round_2_53_plus_1: "roundBinary64 9007199254740993 = FFin False 9007199254740992"
  by code_simp

text \<open>
  Claim C6, as the code has it.  The less-than and the less-than-or-equal instruction
  replace their operands \<open>l\<close> and \<open>r\<close> by \<open>op_lt_result\<close> and \<open>op_lte_result\<close>, computed
  from the primitives of the operands:
  \<^item> two strings compare lexicographically;
  \<^item> two integers of the same integer variant (two \<^verbatim>\<open>valueInt\<close>, or two
    \<^verbatim>\<open>valueInt64\<close>) compare directly, as signed numbers;
  \<^item> in every other case, also for a \<^verbatim>\<open>valueInt\<close> against a \<^verbatim>\<open>valueInt64\<close>, the float
    conversions of the operands are compared; when either is NaN the comparison is
    incomparable, and less-than, less-than-or-equal and not-less-than (greater-or-equal) all
    produce false, so that less-than and not-less-than are not negations of each other.
  Less-than-or-equal is "not (right less than left)" wherever the operands are comparable.
\<close>

theorem relational_instructions:
  "(2 \<le> sp vm \<and> sp vm \<le> int (length (stack vm))
      \<and> stack vm ! nat (sp vm - 2) = Some a \<and> stack vm ! nat (sp vm - 1) = Some b \<longrightarrow>
      op_lt_exec N vm =
        Returns (vm\<lparr>stack := (stack vm)[nat (sp vm - 2) := Some (op_lt_result N a b)],
                    sp := sp vm - 1, pc := pc vm + 1\<rparr>)
      \<and> op_lte_exec N vm =
        Returns (vm\<lparr>stack := (stack vm)[nat (sp vm - 2) := Some (op_lte_result N a b)],
                    sp := sp vm - 1, pc := pc vm + 1\<rparr>))
   \<and> (toPrimitiveNumber N l = valueString xs \<and> toPrimitiveNumber N r = valueString ys \<longrightarrow>
        op_lt_result N l r = bool_value (compareTo xs ys < 0)
        \<and> op_lte_result N l r = bool_value (\<not> compareTo ys xs < 0))
   \<and> (compareTo xs ys < 0) = ord.lexordp (\<lambda>a b. (of_char a :: nat) < of_char b) xs ys
   \<and> (toPrimitiveNumber N l = valueInt x \<and> toPrimitiveNumber N r = valueInt y \<longrightarrow>
        op_lt_result N l r = bool_value (sint x < sint y)
        \<and> op_lte_result N l r = bool_value (sint x \<le> sint y))
   \<and> (toPrimitiveNumber N l = valueInt64 x \<and> toPrimitiveNumber N r = valueInt64 y \<longrightarrow>
        op_lt_result N l r = bool_value (sint x < sint y)
        \<and> op_lte_result N l r = bool_value (sint x \<le> sint y))
   \<and> (\<not> (\<exists>xs ys. toPrimitiveNumber N l = valueString xs \<and> toPrimitiveNumber N r = valueString ys)
        \<and> \<not> (\<exists>x y. toPrimitiveNumber N l = valueInt x \<and> toPrimitiveNumber N r = valueInt y)
        \<and> \<not> (\<exists>x y. toPrimitiveNumber N l = valueInt64 x \<and> toPrimitiveNumber N r = valueInt64 y) \<longrightarrow>
        op_lt_result N l r =
          (if IsNaN (ToFloat N (toPrimitiveNumber N l)) \<or> IsNaN (ToFloat N (toPrimitiveNumber N r))
           then valueFalse
           else bool_value (flt (ToFloat N (toPrimitiveNumber N l)) (ToFloat N (toPrimitiveNumber N r))))
        \<and> op_lte_result N l r =
          (if IsNaN (ToFloat N (toPrimitiveNumber N l)) \<or> IsNaN (ToFloat N (toPrimitiveNumber N r))
           then valueFalse
           else bool_value (\<not> flt (ToFloat N (toPrimitiveNumber N r)) (ToFloat N (toPrimitiveNumber N l))))
        \<and> op_gte_result N l r =
          (if IsNaN (ToFloat N (toPrimitiveNumber N l)) \<or> IsNaN (ToFloat N (toPrimitiveNumber N r))
           then valueFalse
           else bool_value (\<not> flt (ToFloat N (toPrimitiveNumber N l)) (ToFloat N (toPrimitiveNumber N r)))))
   \<and> op_lt_result N (valueInt x) (valueInt64 y) =
        (if IsNaN (ToFloat N (valueInt x)) \<or> IsNaN (ToFloat N (valueInt64 y)) then valueFalse
         else bool_value (flt (ToFloat N (valueInt x)) (ToFloat N (valueInt64 y))))
   \<and> op_lte_result N (valueInt x) (valueInt64 y) =
        (if IsNaN (ToFloat N (valueInt x)) \<or> IsNaN (ToFloat N (valueInt64 y)) then valueFalse
         else bool_value (\<not> flt (ToFloat N (valueInt64 y)) (ToFloat N (valueInt x))))
   \<and> op_lt_result N (valueFloat FNaN) r = valueFalse
   \<and> op_lt_result N l (valueFloat FNaN) = valueFalse
   \<and> op_lte_result N (valueFloat FNaN) r = valueFalse
   \<and> op_lte_result N l (valueFloat FNaN) = valueFalse
   \<and> op_gte_result N (valueFloat FNaN) r = valueFalse
   \<and> op_gte_result N l (valueFloat FNaN) = valueFalse"
proof -
  have e: "2 \<le> sp vm \<and> sp vm \<le> int (length (stack vm))
      \<and> stack vm ! nat (sp vm - 2) = Some a \<and> stack vm ! nat (sp vm - 1) = Some b \<longrightarrow>
      op_lt_exec N vm =
        Returns (vm\<lparr>stack := (stack vm)[nat (sp vm - 2) := Some (op_lt_result N a b)],
                    sp := sp vm - 1, pc := pc vm + 1\<rparr>)
      \<and> op_lte_exec N vm =
        Returns (vm\<lparr>stack := (stack vm)[nat (sp vm - 2) := Some (op_lte_result N a b)],
                    sp := sp vm - 1, pc := pc vm + 1\<rparr>)"
    by (simp add: op_lt_exec_def op_lte_exec_def binary_exec_operands)
  have s: "toPrimitiveNumber N l = valueString xs \<and> toPrimitiveNumber N r = valueString ys \<longrightarrow>
        op_lt_result N l r = bool_value (compareTo xs ys < 0)
        \<and> op_lte_result N l r = bool_value (\<not> compareTo ys xs < 0)"
    using relational_strings(1,2) [of N l xs r ys] by blast
  have i: "toPrimitiveNumber N l = valueInt x \<and> toPrimitiveNumber N r = valueInt y \<longrightarrow>
        op_lt_result N l r = bool_value (sint x < sint y)
        \<and> op_lte_result N l r = bool_value (sint x \<le> sint y)"
    using relational_valueInt(1,2) [of N l x r y] by blast
  have w: "toPrimitiveNumber N l = valueInt64 x \<and> toPrimitiveNumber N r = valueInt64 y \<longrightarrow>
        op_lt_result N l r = bool_value (sint x < sint y)
        \<and> op_lte_result N l r = bool_value (sint x \<le> sint y)"
    using relational_valueInt64(1,2) [of N l x r y] by blast
  have f: "\<not> (\<exists>xs ys. toPrimitiveNumber N l = valueString xs \<and> toPrimitiveNumber N r = valueString ys)
        \<and> \<not> (\<exists>x y. toPrimitiveNumber N l = valueInt x \<and> toPrimitiveNumber N r = valueInt y)
        \<and> \<not> (\<exists>x y. toPrimitiveNumber N l = valueInt64 x \<and> toPrimitiveNumber N r = valueInt64 y) \<longrightarrow>
        op_lt_result N l r =
          (if IsNaN (ToFloat N (toPrimitiveNumber N l)) \<or> IsNaN (ToFloat N (toPrimitiveNumber N r))
           then valueFalse
           else bool_value (flt (ToFloat N (toPrimitiveNumber N l)) (ToFloat N (toPrimitiveNumber N r))))
        \<and> op_lte_result N l r =
          (if IsNaN (ToFloat N (toPrimitiveNumber N l)) \<or> IsNaN (ToFloat N (toPrimitiveNumber N r))
           then valueFalse
           else bool_value (\<not> flt (ToFloat N (toPrimitiveNumber N r)) (ToFloat N (toPrimitiveNumber N l))))
        \<and> op_gte_result N l r =
          (if IsNaN (ToFloat N (toPrimitiveNumber N l)) \<or> IsNaN (ToFloat N (toPrimitiveNumber N r))
           then valueFalse
           else bool_value (\<not> flt (ToFloat N (toPrimitiveNumber N l)) (ToFloat N (toPrimitiveNumber N r))))"
    using relational_floats(1,2,4) [of N l r] by blast
  have m1: "op_lt_result N (valueInt x) (valueInt64 y) =
        (if IsNaN (ToFloat N (valueInt x)) \<or> IsNaN (ToFloat N (valueInt64 y)) then valueFalse
         else bool_value (flt (ToFloat N (valueInt x)) (ToFloat N (valueInt64 y))))"
    using relational_floats(1) [of N "valueInt x" "valueInt64 y"] by simp
  have m2: "op_lte_result N (valueInt x) (valueInt64 y) =
        (if IsNaN (ToFloat N (valueInt x)) \<or> IsNaN (ToFloat N (valueInt64 y)) then valueFalse
         else bool_value (\<not> flt (ToFloat N (valueInt64 y)) (ToFloat N (valueInt x))))"
    using relational_floats(2) [of N "valueInt x" "valueInt64 y"] by simp
  note n = relational_nan(1,2,3,4,7,8) [of N]
  from e s i w f m1 m2 show ?thesis
    using compareTo_lexicographic [of xs ys] n by blast
qed

theorem relational_instructions_witness:
  "op_lt_result exampleNumops (valueInt 1) (valueInt 2) = valueTrue
   \<and> op_lte_result exampleNumops (valueInt 2) (valueInt 1) = valueFalse
   \<and> op_lt_result exampleNumops (valueString ''ab'') (valueString ''b'') = valueTrue
   \<and> op_lt_result exampleNumops (valueInt 1) (valueFloat (FFin False 2)) = valueTrue
   \<and> op_lt_exec exampleNumops
        (exampleVm\<lparr>stack := [Some (valueFloat FNaN), Some (valueInt 1)], sp := 2\<rparr>)
       = Returns (exampleVm\<lparr>stack := [Some valueFalse, Some (valueInt 1)], sp := 1, pc := 1\<rparr>)
   \<and> op_lte_exec exampleNumops
        (exampleVm\<lparr>stack := [Some (valueFloat FNaN), Some (valueInt 1)], sp := 2\<rparr>)
       = Returns (exampleVm\<lparr>stack := [Some valueFalse, Some (valueInt 1)], sp := 1, pc := 1\<rparr>)"
proof -
  let ?vm = "exampleVm\<lparr>stack := [Some (valueFloat FNaN), Some (valueInt 1)], sp := 2\<rparr>"
  have 1: "op_lt_result exampleNumops (valueInt 1) (valueInt 2) = valueTrue"
    using relational_instructions
            [where l = "valueInt 1" and r = "valueInt 2" and x = 1 and y = 2 and N = exampleNumops]
    by (simp add: bool_value_def)
  have 2: "op_lte_result exampleNumops (valueInt 2) (valueInt 1) = valueFalse"
    using relational_instructions
            [where l = "valueInt 2" and r = "valueInt 1" and x = 2 and y = 1 and N = exampleNumops]
    by (simp add: bool_value_def)
  have 3: "op_lt_result exampleNumops (valueString ''ab'') (valueString ''b'') = valueTrue"
    using relational_instructions
            [where l = "valueString ''ab''" and r = "valueString ''b''" and xs = "''ab''"
               and ys = "''b''" and N = exampleNumops]
    by (simp add: bool_value_def)
  have 4: "op_lt_result exampleNumops (valueInt 1) (valueFloat (FFin False 2)) = valueTrue"
    using relational_instructions
            [where l = "valueInt 1" and r = "valueFloat (FFin False 2)" and N = exampleNumops]
    by (simp add: float64_of_int64_def maxInt_def fval_def bool_value_def)
  have 5: "op_lt_exec exampleNumops ?vm
             = Returns (exampleVm\<lparr>stack := [Some valueFalse, Some (valueInt 1)], sp := 1, pc := 1\<rparr>)
         \<and> op_lte_exec exampleNumops ?vm
             = Returns (exampleVm\<lparr>stack := [Some valueFalse, Some (valueInt 1)], sp := 1, pc := 1\<rparr>)"
    using relational_instructions
            [where vm = ?vm and a = "valueFloat FNaN" and b = "valueInt 1" and N = exampleNumops
               and r = "valueInt 1"]
    by (simp add: exampleVm_def)
  from 1 2 3 4 5 show ?thesis by blast
qed

text \<open>
  The claim as stated fails for integers of different variants: they are not compared
  directly but through \<^verbatim>\<open>float64\<close>.  The integer 9007199254740992 is less than the wide
  integer 9007199254740993, which \<^verbatim>\<open>float64\<close> rounds to 9007199254740992; the less-than
  instruction answers false, and with the operands exchanged the less-than-or-equal
  instruction answers true.
\<close>

theorem relational_mixed_integers_counterexample:
  "sint (9007199254740992 :: int64) < sint (9007199254740993 :: int64)
   \<and> op_lt_result binary64Numops (valueInt 9007199254740992) (valueInt64 9007199254740993)
       = valueFalse
   \<and> op_lte_result binary64Numops (valueInt64 9007199254740993) (valueInt 9007199254740992)
       = valueTrue"
  by (simp add: op_lt_result_def op_lte_result_def cmp_floats_def binary64Numops_def
        exampleNumops_def float64_of_int64_def maxInt_def round_2_53_plus_1 Let_def
        bool_value_def fval_def v_undefined_def valueFalse_def valueTrue_def)

section \<open>Properties of the call and construction protocol\<close>

lemma callEval_object:
  assumes "stack_read vm (sp vm - n - 1) = Inr (Some (valueObject ob))"
  shows "callEval R n strict vm =
     (if ob = Eval R then
        (if n > 0 then
           (case stack_read vm (sp vm - n) of
              Inl e \<Rightarrow> Panics e vm
            | Inr (Some (valueString src)) \<Rightarrow>
                (case (if sb vm \<ge> 0 then stack_read vm (sb vm)
                       else Inr (Some (valueObject (globalObject R)))) of
                   Inl e \<Rightarrow> Panics e vm
                 | Inr this \<Rightarrow>
                     (case eval R src True strict this vm of
                        Inl (e, vm') \<Rightarrow> Panics e vm'
                      | Inr (ret, vm') \<Rightarrow> callEval_finish n vm' ret))
            | Inr srcVal \<Rightarrow> callEval_finish n vm srcVal)
         else callEval_finish n vm (Some v_undefined))
      else call_exec R n vm)"
  using assms by (simp add: callEval_def)

lemma callEval_not_object:
  assumes "stack_read vm (sp vm - n - 1) = Inr v" and "\<forall>ob. v \<noteq> Some (valueObject ob)"
  shows "callEval R n strict vm = Panics (evalNotAFunction R) vm"
proof (cases v)
  case None
  with assms show ?thesis by (simp add: callEval_def)
next
  case (Some w)
  with assms show ?thesis by (cases w) (simp_all add: callEval_def)
qed

lemma callEval_finish_in_range:
  assumes "0 \<le> sp vm - n - 2" and "sp vm - n - 2 < int (length (stack vm))"
  shows "callEval_finish n vm ret =
           Returns (vm\<lparr>stack := (stack vm)[nat (sp vm - n - 2) := ret],
                       sp := sp vm - (n + 1), pc := pc vm + 1\<rparr>)"
  using assms by (simp add: callEval_finish_def stack_write_def)

text \<open>
  Claim C7, as the code has it.  Let the callee of a call-eval instruction with \<open>n\<close>
  arguments be the value at \<^verbatim>\<open>vm.stack[vm.sp-n-1]\<close>, and let the slot of the result,
  \<^verbatim>\<open>vm.stack[vm.sp-n-2]\<close>, exist.
  \<^item> The callee is the built-in eval object and the first argument is a string: the
    string goes to \<^verbatim>\<open>Runtime.eval\<close> as a direct call, on the machine as it stands (so in
    the current scope of the caller), with the "this" of the caller, which is
    \<^verbatim>\<open>vm.stack[vm.sb]\<close>, or the global object when \<^verbatim>\<open>vm.sb\<close> is negative; the value it
    returns is the result.
  \<^item> The callee is the built-in eval object and the first argument is not a string: the
    argument is the result, unchanged.
  \<^item> The callee is the built-in eval object and there is no argument: the result is
    undefined.
  \<^item> The callee is another object: the instruction is \<^verbatim>\<open>call(n).exec\<close>, the ordinary
    function call.
  \<^item> The callee is not an object: the instruction raises the type error "'eval' is not a
    function"; it is not dispatched as a call.
\<close>

theorem callEval_fast_path:
  assumes "stack_read vm (sp vm - n - 1) = Inr callee" and "0 \<le> sp vm - n - 2"
  shows "(callee = Some (valueObject (Eval R)) \<and> n > 0
            \<and> stack_read vm (sp vm - n) = Inr (Some (valueString src))
            \<and> (if sb vm \<ge> 0 then stack_read vm (sb vm)
                else Inr (Some (valueObject (globalObject R)))) = Inr this \<longrightarrow>
          callEval R n strict vm =
            (case eval R src True strict this vm of
               Inl (e, vm') \<Rightarrow> Panics e vm'
             | Inr (ret, vm') \<Rightarrow> callEval_finish n vm' ret))
       \<and> (callee = Some (valueObject (Eval R)) \<and> n > 0
            \<and> stack_read vm (sp vm - n) = Inr srcVal
            \<and> (\<forall>s. srcVal \<noteq> Some (valueString s)) \<longrightarrow>
          callEval R n strict vm =
            Returns (vm\<lparr>stack := (stack vm)[nat (sp vm - n - 2) := srcVal],
                        sp := sp vm - (n + 1), pc := pc vm + 1\<rparr>))
       \<and> (callee = Some (valueObject (Eval R)) \<and> n \<le> 0 \<longrightarrow>
          callEval R n strict vm =
            Returns (vm\<lparr>stack := (stack vm)[nat (sp vm - n - 2) := Some v_undefined],
                        sp := sp vm - (n + 1), pc := pc vm + 1\<rparr>))
       \<and> (\<forall>ob. callee = Some (valueObject ob) \<and> ob \<noteq> Eval R \<longrightarrow>
          callEval R n strict vm = call_exec R n vm)
       \<and> ((\<forall>ob. callee \<noteq> Some (valueObject ob)) \<longrightarrow>
          callEval R n strict vm = Panics (evalNotAFunction R) vm)"
proof -
  have rng: "sp vm - n - 2 < int (length (stack vm))"
    using assms(1) by (simp add: stack_read_def split: if_splits)
  note fin = callEval_finish_in_range [OF assms(2) rng]
  have a: "callee = Some (valueObject (Eval R)) \<and> n > 0
            \<and> stack_read vm (sp vm - n) = Inr (Some (valueString src))
            \<and> (if sb vm \<ge> 0 then stack_read vm (sb vm)
                else Inr (Some (valueObject (globalObject R)))) = Inr this \<longrightarrow>
          callEval R n strict vm =
            (case eval R src True strict this vm of
               Inl (e, vm') \<Rightarrow> Panics e vm'
             | Inr (ret, vm') \<Rightarrow> callEval_finish n vm' ret)"
    using assms(1) by (auto simp: callEval_object)
  have b: "callee = Some (valueObject (Eval R)) \<and> n > 0
            \<and> stack_read vm (sp vm - n) = Inr srcVal
            \<and> (\<forall>s. srcVal \<noteq> Some (valueString s)) \<longrightarrow>
          callEval R n strict vm =
            Returns (vm\<lparr>stack := (stack vm)[nat (sp vm - n - 2) := srcVal],
                        sp := sp vm - (n + 1), pc := pc vm + 1\<rparr>)"
  proof (intro impI, elim conjE)
    assume h: "callee = Some (valueObject (Eval R))" "n > 0"
      "stack_read vm (sp vm - n) = Inr srcVal" "\<forall>s. srcVal \<noteq> Some (valueString s)"
    have "callEval R n strict vm = callEval_finish n vm srcVal"
    proof (cases srcVal)
      case None
      with h assms(1) show ?thesis by (simp add: callEval_object)
    next
      case (Some w)
      with h assms(1) show ?thesis by (cases w) (simp_all add: callEval_object)
    qed
    then show "callEval R n strict vm =
            Returns (vm\<lparr>stack := (stack vm)[nat (sp vm - n - 2) := srcVal],
                        sp := sp vm - (n + 1), pc := pc vm + 1\<rparr>)"
      by (simp add: fin)
  qed
  have c: "callee = Some (valueObject (Eval R)) \<and> n \<le> 0 \<longrightarrow>
          callEval R n strict vm =
            Returns (vm\<lparr>stack := (stack vm)[nat (sp vm - n - 2) := Some v_undefined],
                        sp := sp vm - (n + 1), pc := pc vm + 1\<rparr>)"
    using assms(1) by (auto simp: callEval_object fin)
  have d: "\<forall>ob. callee = Some (valueObject ob) \<and> ob \<noteq> Eval R \<longrightarrow>
          callEval R n strict vm = call_exec R n vm"
    using assms(1) by (auto simp: callEval_object)
  have e: "(\<forall>ob. callee \<noteq> Some (valueObject ob)) \<longrightarrow>
          callEval R n strict vm = Panics (evalNotAFunction R) vm"
    using callEval_not_object [OF assms(1)] by blast
  from a b c d e show ?thesis by blast
qed

theorem callEval_fast_path_witness:
  "stack_read (exampleVm\<lparr>stack := [Some v_undefined, Some (valueObject 11), Some (valueString ''1'')],
                          sp := 3\<rparr>) (3 - 1 - 1) = Inr (Some (valueObject (Eval exampleRuntime)))
   \<and> callEval exampleRuntime 1 False
        (exampleVm\<lparr>stack := [Some v_undefined, Some (valueObject 11), Some (valueString ''1'')],
                    sp := 3\<rparr>)
       = Returns (exampleVm\<lparr>stack := [Some (valueInt 42), Some (valueObject 11),
                                        Some (valueString ''1'')], sp := 1, pc := 1\<rparr>)"
  using callEval_fast_path
          [of "exampleVm\<lparr>stack := [Some v_undefined, Some (valueObject 11), Some (valueString ''1'')],
                          sp := 3\<rparr>" 1 "Some (valueObject 11)" exampleRuntime "''1''"
              "Some (valueObject 10)" False]
  by (simp add: exampleVm_def exampleRuntime_def stack_read_def callEval_finish_def
        stack_write_def)

text \<open>
  The claim as stated fails for a callee that is not an object.  With the unresolved
  reference \<open>eval\<close> as the callee, the call-eval instruction raises the type error, where
  the ordinary function call raises the reference error of the unresolved name.
\<close>

theorem callEval_not_dispatched_counterexample:
  "callEval exampleRuntime 0 False
     (exampleVm\<lparr>stack := [Some v_undefined, Some (valueUnresolved ''eval'')], sp := 2\<rparr>)
     = Panics (evalNotAFunction exampleRuntime)
         (exampleVm\<lparr>stack := [Some v_undefined, Some (valueUnresolved ''eval'')], sp := 2\<rparr>)
   \<and> call_exec exampleRuntime 0
     (exampleVm\<lparr>stack := [Some v_undefined, Some (valueUnresolved ''eval'')], sp := 2\<rparr>)
     = Panics (throwReferenceError ''eval'')
         (exampleVm\<lparr>stack := [Some v_undefined, Some (valueUnresolved ''eval'')], sp := 2\<rparr>)
   \<and> callEval exampleRuntime 0 False
     (exampleVm\<lparr>stack := [Some v_undefined, Some (valueUnresolved ''eval'')], sp := 2\<rparr>)
     \<noteq> call_exec exampleRuntime 0
     (exampleVm\<lparr>stack := [Some v_undefined, Some (valueUnresolved ''eval'')], sp := 2\<rparr>)"
  by (simp add: callEval_def call_exec_def stack_read_def exampleVm_def evalNotAFunction_def
        throwReferenceError_def)

lemma new_exec_not_constructible:
  assumes "stack_read vm (sp vm - int n - 1) = Inr (Some (valueObject ob))"
    and "assertConstructor R ob = None" and "nativeFuncObject R ob = None"
  shows "new_exec R n vm = Returns (vm\<lparr>sp := sp vm - int n, pc := pc vm + 1\<rparr>)"
  using assms by (simp add: new_exec_def new_finish_def)

text \<open>
  Claim C8.  The construction instruction takes the constructor of the callee when it has
  one, and otherwise its native function when it has one.  For an object with neither the
  instruction raises nothing: it drops the arguments and goes on with the callee itself in
  the place of the constructed value (\<open>new_exec_not_constructible\<close>).  Here the object 7,
  with neither a constructor nor a native function, is constructed with no argument.
\<close>

theorem new_exec_no_type_error:
  "assertConstructor exampleRuntime 7 = None
   \<and> nativeFuncObject exampleRuntime 7 = None
   \<and> new_exec exampleRuntime 0 (exampleVm\<lparr>stack := [Some (valueObject 7)], sp := 1\<rparr>)
       = Returns (exampleVm\<lparr>stack := [Some (valueObject 7)], sp := 1, pc := 1\<rparr>)"
  by (simp add: new_exec_def new_finish_def stack_read_def exampleVm_def exampleRuntime_def)

section \<open>Properties of exceptions, unwinding and iterators\<close>

lemma closeIters_events:
  assumes "\<And>it v tr r. tryClose it v = Some (tr, r) \<Longrightarrow> set tr \<subseteq> range Close"
  shows "closeIters tryClose pos items vm = Some (tr, r) \<Longrightarrow> set tr \<subseteq> range Close"
proof (induction items arbitrary: pos vm tr r)
  case Nil
  then show ?case by simp
next
  case (Cons item rest)
  show ?case
  proof (cases "item_iter item")
    case None
    with Cons show ?thesis by simp
  next
    case (Some it)
    show ?thesis
    proof (cases "tryClose it vm")
      case None
      with Some Cons.prems show ?thesis by simp
    next
      case (Some a)
      obtain tr1 r1 where a: "a = (tr1, r1)" by (cases a)
      have t1: "set tr1 \<subseteq> range Close" using assms Some a by blast
      show ?thesis
      proof (cases r1)
        case (Repanics p v)
        with Cons.prems \<open>item_iter item = Some it\<close> Some a t1 show ?thesis by auto
      next
        case (Caught ex v)
        with Cons.prems \<open>item_iter item = Some it\<close> Some a
        obtain tr2 where "closeIters tryClose (Suc pos) rest (v\<lparr>iterStack := (iterStack v)[pos := zeroItem]\<rparr>) = Some (tr2, r)"
          and "tr = Close it # tr1 @ tr2"
          by (auto split: option.splits)
        with Cons.IH t1 show ?thesis by auto
      qed
    qed
  qed
qed

lemma vm_try_events:
  "vm_try k R c body vm = Some (tr, r) \<Longrightarrow> set tr \<subseteq> range Close"
proof (induction k arbitrary: c body vm tr r)
  case 0
  then show ?case by simp
next
  case (Suc k)
  show ?case
  proof (cases "body vm")
    case (Returns v)
    with Suc.prems show ?thesis by (simp add: Let_def)
  next
    case (Panics x v)
    define vm1 where "vm1 = (restoreCtx (saveCtx vm (zeroCtx\<lparr>c_ctx := c\<rparr>))
          (v\<lparr>callStack := take (length (callStack vm)) (callStack v)\<rparr>))\<lparr>sp := sp vm\<rparr>"
    show ?thesis
    proof (cases "length (iterStack vm1) < length (iterStack vm)")
      case True
      with Suc.prems Panics show ?thesis by (simp add: Let_def vm1_def)
    next
      case False
      let ?cl = "closeIters (\<lambda>it v. vm_try k R (ctx v) (returnIter R it) v) (length (iterStack vm))
                  (drop (length (iterStack vm)) (iterStack vm1)) vm1"
      from Suc.prems Panics False obtain tr1 r1 where cl: "?cl = Some (tr1, r1)"
        by (cases ?cl) (auto simp: Let_def vm1_def)
      have "set tr1 \<subseteq> range Close"
        using closeIters_events [OF _ cl] Suc.IH by blast
      moreover have "tr = tr1"
        using Suc.prems Panics False cl
        by (cases r1) (auto simp: Let_def vm1_def split: if_splits sum.splits)
      ultimately show ?thesis by simp
    qed
  qed
qed

lemma try_catch_part_events:
  assumes "try_catch_part k R t vm = Some (tr, r)"
  shows "RunFinally \<notin> set tr"
proof -
  let ?first = "vm_try k R (ctx vm) (run R) (vm\<lparr>pc := pc vm + 1\<rparr>)"
  from assms obtain tr1 r1 where first: "?first = Some (tr1, r1)"
    by (cases ?first) (auto simp: try_catch_part_def runTry_def Let_def)
  have e1: "set tr1 \<subseteq> range Close" using vm_try_events [OF first] .
  show ?thesis
  proof (cases r1)
    case (Repanics p v)
    with assms first e1 show ?thesis
      by (auto simp: try_catch_part_def runTry_def Let_def)
  next
    case (Caught ex v)
    show ?thesis
    proof (cases ex)
      case None
      with assms first e1 Caught show ?thesis
        by (auto simp: try_catch_part_def runTry_def Let_def)
    next
      case (Some e)
      show ?thesis
      proof (cases "catchOffset t > 0")
        case False
        with assms first e1 Caught Some show ?thesis
          by (auto simp: try_catch_part_def runTry_def Let_def)
      next
        case True
        show ?thesis
        proof (cases "push (v\<lparr>pc := pc vm + catchOffset t\<rparr>) (Some (ex_val e))")
          case (Panics p v2)
          with assms first e1 Caught Some True show ?thesis
            by (auto simp: try_catch_part_def runTry_def Let_def)
        next
          case (Returns v2)
          let ?second = "vm_try k R (ctx v2) (run R) v2"
          from assms first Caught Some True Returns obtain tr2 r2
            where second: "?second = Some (tr2, r2)" and tr: "tr = RunTry # tr1 @ RunCatch # tr2"
            by (cases ?second) (auto simp: try_catch_part_def runTry_def Let_def)
          have "set tr2 \<subseteq> range Close" using vm_try_events [OF second] .
          with e1 tr show ?thesis by auto
        qed
      qed
    qed
  qed
qed

lemma finally_part_runs:
  assumes "0 < finallyOffset t"
  shows "\<exists>r. finally_part R t o1 ex vm1 = ([RunFinally], r)"
  using assms
  by (auto simp: finally_part_def Let_def split: outcome.splits option.splits)

lemma finally_part_early_exit:
  assumes "0 < finallyOffset t"
    and "run R (vm1\<lparr>pc := o1 + finallyOffset t\<rparr>) = Returns v"
    and "prg v = Some P" and "0 \<le> pc v" and "pc v < int (length (code P))"
  shows "finally_part R t o1 ex vm1 =
           ([RunFinally],
            if code P ! nat (pc v) = retFinally then try_end ex (v\<lparr>pc := pc vm1\<rparr>)
            else Returns (v\<lparr>halt := False\<rparr>))"
  using assms by (simp add: finally_part_def Let_def try_end_def)

lemma vm_try_unwinds:
  assumes "body vm = Panics x v" and "length (iterStack v) = length (iterStack vm)"
    and "length (refStack vm) \<le> length (refStack v)"
  shows "vm_try (Suc k) R c body vm =
           Some ([], case recovered R x of
                       Inl p \<Rightarrow> Repanics p
                         ((restoreCtx (saveCtx vm (zeroCtx\<lparr>c_ctx := c\<rparr>))
                            (v\<lparr>callStack := take (length (callStack vm)) (callStack v)\<rparr>))
                          \<lparr>sp := sp vm, iterStack := iterStack v,
                            refStack := take (length (refStack vm)) (refStack v)\<rparr>)
                     | Inr e \<Rightarrow> Caught (Some e)
                         ((restoreCtx (saveCtx vm (zeroCtx\<lparr>c_ctx := c\<rparr>))
                            (v\<lparr>callStack := take (length (callStack vm)) (callStack v)\<rparr>))
                          \<lparr>sp := sp vm, iterStack := iterStack v,
                            refStack := take (length (refStack vm)) (refStack v)\<rparr>))"
proof -
  define vm1 where "vm1 = (restoreCtx (saveCtx vm (zeroCtx\<lparr>c_ctx := c\<rparr>))
          (v\<lparr>callStack := take (length (callStack vm)) (callStack v)\<rparr>))\<lparr>sp := sp vm\<rparr>"
  have i1: "iterStack vm1 = iterStack v" and r1: "refStack vm1 = refStack v"
    by (simp_all add: vm1_def restoreCtx_def)
  have "vm_try (Suc k) R c body vm =
     (case closeIters (\<lambda>it v. vm_try k R (ctx v) (returnIter R it) v) (length (iterStack vm))
             (drop (length (iterStack vm)) (iterStack vm1)) vm1 of
        None \<Rightarrow> None
      | Some (tr, Panics p vm2) \<Rightarrow> Some (tr, Repanics p vm2)
      | Some (tr, Returns vm2) \<Rightarrow>
          (let vm3 = vm2\<lparr>iterStack := take (length (iterStack vm)) (iterStack vm2)\<rparr>
           in if length (refStack vm3) < length (refStack vm)
              then Some (tr, Repanics sliceOutOfRange vm3)
              else
                (let vm4 = vm3\<lparr>refStack := take (length (refStack vm)) (refStack vm3)\<rparr>
                 in case recovered R x of
                      Inl p \<Rightarrow> Some (tr, Repanics p vm4)
                    | Inr ex \<Rightarrow> Some (tr, Caught (Some ex) vm4))))"
    using assms(1,2) i1 unfolding vm1_def by (simp add: Let_def)
  also have "drop (length (iterStack vm)) (iterStack vm1) = []"
    using assms(2) i1 by simp
  finally show ?thesis
    using assms(2,3) i1 r1
    by (cases "recovered R x") (simp_all add: Let_def vm1_def)
qed

lemma orderlyClose_Returns:
  assumes "orderlyClose R" and "returnIter R it v = Returns v1"
  shows "length (iterStack v1) = length (iterStack v)"
proof -
  from assms(1) have "case returnIter R it v of
        Returns v' \<Rightarrow> length (iterStack v') = length (iterStack v)
      | Panics p v' \<Rightarrow> length (iterStack v') = length (iterStack v)
                      \<and> length (refStack v) \<le> length (refStack v')
                      \<and> (\<exists>e. recovered R p = Inr e)"
    unfolding orderlyClose_def by blast
  with assms(2) show ?thesis by simp
qed

lemma orderlyClose_Panics:
  assumes "orderlyClose R" and "returnIter R it v = Panics p v1"
  shows "length (iterStack v1) = length (iterStack v)
       \<and> length (refStack v) \<le> length (refStack v1) \<and> (\<exists>e. recovered R p = Inr e)"
proof -
  from assms(1) have "case returnIter R it v of
        Returns v' \<Rightarrow> length (iterStack v') = length (iterStack v)
      | Panics p v' \<Rightarrow> length (iterStack v') = length (iterStack v)
                      \<and> length (refStack v) \<le> length (refStack v')
                      \<and> (\<exists>e. recovered R p = Inr e)"
    unfolding orderlyClose_def by blast
  with assms(2) show ?thesis by simp
qed

lemma nested_close:
  assumes "orderlyClose R"
  shows "\<exists>ex v'. vm_try (Suc k) R c (returnIter R it) v = Some ([], Caught ex v')
            \<and> length (iterStack v') = length (iterStack v)"
proof (cases "returnIter R it v")
  case (Returns v1)
  have "length (iterStack v1) = length (iterStack v)"
    using orderlyClose_Returns [OF assms Returns] .
  moreover have "vm_try (Suc k) R c (returnIter R it) v = Some ([], Caught None v1)"
    using Returns by (simp add: Let_def)
  ultimately show ?thesis by blast
next
  case (Panics p v1)
  from orderlyClose_Panics [OF assms Panics]
  obtain e where h: "length (iterStack v1) = length (iterStack v)"
      "length (refStack v) \<le> length (refStack v1)" "recovered R p = Inr e"
    by blast
  have "vm_try (Suc k) R c (returnIter R it) v =
          Some ([], Caught (Some e)
                         ((restoreCtx (saveCtx v (zeroCtx\<lparr>c_ctx := c\<rparr>))
                            (v1\<lparr>callStack := take (length (callStack v)) (callStack v1)\<rparr>))
                          \<lparr>sp := sp v, iterStack := iterStack v1,
                            refStack := take (length (refStack v)) (refStack v1)\<rparr>))"
    using vm_try_unwinds [where body = "returnIter R it" and vm = v and x = p and v = v1
                            and k = k and R = R and c = c] Panics h
    by simp
  with h(1) show ?thesis by simp
qed

lemma closeIters_trace:
  assumes "orderlyClose R"
  shows "\<exists>v'. closeIters (\<lambda>it v. vm_try (Suc k) R (ctx v) (returnIter R it) v) pos items vm
               = Some (map Close (open_iters items), Returns v')
            \<and> length (iterStack v') = length (iterStack vm)"
proof (induction items arbitrary: pos vm)
  case Nil
  show ?case by simp
next
  case (Cons item rest)
  show ?case
  proof (cases "item_iter item")
    case None
    from Cons.IH [of "Suc pos" "vm\<lparr>iterStack := (iterStack vm)[pos := zeroItem]\<rparr>"]
    show ?thesis using None by simp
  next
    case (Some it)
    from nested_close [OF assms, of k "ctx vm" it vm]
    obtain ex v1 where n: "vm_try (Suc k) R (ctx vm) (returnIter R it) vm = Some ([], Caught ex v1)"
        "length (iterStack v1) = length (iterStack vm)"
      by blast
    from Cons.IH [of "Suc pos" "v1\<lparr>iterStack := (iterStack v1)[pos := zeroItem]\<rparr>"]
    obtain v2 where
      "closeIters (\<lambda>it v. vm_try (Suc k) R (ctx v) (returnIter R it) v) (Suc pos) rest
            (v1\<lparr>iterStack := (iterStack v1)[pos := zeroItem]\<rparr>)
         = Some (map Close (open_iters rest), Returns v2)"
      "length (iterStack v2) = length (iterStack v1)"
      by auto
    with n Some show ?thesis by simp
  qed
qed

lemma finally_after_try_catch:
  assumes "0 < finallyOffset t"
    and "try_catch_part k R t vm = Some (tr, Caught ex vm1)"
  shows "\<exists>r. try_exec k R t vm = Some (tr @ [RunFinally], r)
           \<and> count_list (tr @ [RunFinally]) RunFinally = 1
           \<and> (\<forall>v P. run R (vm1\<lparr>pc := pc vm + finallyOffset t\<rparr>) = Returns v
                  \<and> prg v = Some P \<and> 0 \<le> pc v \<and> pc v < int (length (code P)) \<longrightarrow>
                  r = (if code P ! nat (pc v) = retFinally
                       then (case ex of
                               None \<Rightarrow> Returns (v\<lparr>pc := pc vm1, halt := False\<rparr>)
                             | Some e \<Rightarrow> Panics (thrownException (ex_val e))
                                          (v\<lparr>pc := - 1, halt := False\<rparr>))
                       else Returns (v\<lparr>halt := False\<rparr>)))"
proof -
  obtain r where r: "finally_part R t (pc vm) ex vm1 = ([RunFinally], r)"
    using finally_part_runs [OF assms(1)] by blast
  have 1: "try_exec k R t vm = Some (tr @ [RunFinally], r)"
    using assms(2) r by (simp add: try_exec_def)
  have 2: "count_list (tr @ [RunFinally]) RunFinally = 1"
    using try_catch_part_events [OF assms(2)] by (simp add: count_list_0_iff)
  have 3: "\<forall>v P. run R (vm1\<lparr>pc := pc vm + finallyOffset t\<rparr>) = Returns v
                  \<and> prg v = Some P \<and> 0 \<le> pc v \<and> pc v < int (length (code P)) \<longrightarrow>
                  r = (if code P ! nat (pc v) = retFinally
                       then (case ex of
                               None \<Rightarrow> Returns (v\<lparr>pc := pc vm1, halt := False\<rparr>)
                             | Some e \<Rightarrow> Panics (thrownException (ex_val e))
                                          (v\<lparr>pc := - 1, halt := False\<rparr>))
                       else Returns (v\<lparr>halt := False\<rparr>))"
  proof (intro allI impI, elim conjE)
    fix v P
    assume h: "run R (vm1\<lparr>pc := pc vm + finallyOffset t\<rparr>) = Returns v" "prg v = Some P"
      "0 \<le> pc v" "pc v < int (length (code P))"
    from finally_part_early_exit [OF assms(1) h, of ex] r
    show "r = (if code P ! nat (pc v) = retFinally
                       then (case ex of
                               None \<Rightarrow> Returns (v\<lparr>pc := pc vm1, halt := False\<rparr>)
                             | Some e \<Rightarrow> Panics (thrownException (ex_val e))
                                          (v\<lparr>pc := - 1, halt := False\<rparr>))
                       else Returns (v\<lparr>halt := False\<rparr>))"
      by (auto simp: try_end_def split: option.splits)
  qed
  from 1 2 3 show ?thesis by blast
qed


lemma closeKeepsStacks_Returns:
  assumes "closeKeepsStacks R" and "returnIter R it v = Returns v1"
  shows "sp v1 = sp v \<and> length (refStack v) \<le> length (refStack v1)"
proof -
  from assms(1) have "case returnIter R it v of
        Returns v' \<Rightarrow> sp v' = sp v \<and> length (refStack v) \<le> length (refStack v')
      | Panics p v' \<Rightarrow> True"
    unfolding closeKeepsStacks_def by blast
  with assms(2) show ?thesis by simp
qed

lemma nested_close_keeps:
  assumes "orderlyClose R" and "closeKeepsStacks R"
  shows "\<exists>ex v'. vm_try (Suc k) R c (returnIter R it) v = Some ([], Caught ex v')
            \<and> length (iterStack v') = length (iterStack v)
            \<and> sp v' = sp v \<and> length (refStack v) \<le> length (refStack v')"
proof (cases "returnIter R it v")
  case (Returns v1)
  have "length (iterStack v1) = length (iterStack v)"
    using orderlyClose_Returns [OF assms(1) Returns] .
  moreover have "sp v1 = sp v \<and> length (refStack v) \<le> length (refStack v1)"
    using closeKeepsStacks_Returns [OF assms(2) Returns] .
  moreover have "vm_try (Suc k) R c (returnIter R it) v = Some ([], Caught None v1)"
    using Returns by (simp add: Let_def)
  ultimately show ?thesis by blast
next
  case (Panics p v1)
  from orderlyClose_Panics [OF assms(1) Panics]
  obtain e where h: "length (iterStack v1) = length (iterStack v)"
      "length (refStack v) \<le> length (refStack v1)" "recovered R p = Inr e"
    by blast
  have "vm_try (Suc k) R c (returnIter R it) v =
          Some ([], Caught (Some e)
                         ((restoreCtx (saveCtx v (zeroCtx\<lparr>c_ctx := c\<rparr>))
                            (v1\<lparr>callStack := take (length (callStack v)) (callStack v1)\<rparr>))
                          \<lparr>sp := sp v, iterStack := iterStack v1,
                            refStack := take (length (refStack v)) (refStack v1)\<rparr>))"
    using vm_try_unwinds [where body = "returnIter R it" and vm = v and x = p and v = v1
                            and k = k and R = R and c = c] Panics h
    by simp
  with h(1,2) show ?thesis by simp
qed

lemma closeIters_keeps:
  assumes "orderlyClose R" and "closeKeepsStacks R"
  shows "\<exists>v'. closeIters (\<lambda>it v. vm_try (Suc k) R (ctx v) (returnIter R it) v) pos items vm
               = Some (map Close (open_iters items), Returns v')
            \<and> length (iterStack v') = length (iterStack vm)
            \<and> sp v' = sp vm \<and> length (refStack vm) \<le> length (refStack v')"
proof (induction items arbitrary: pos vm)
  case Nil
  show ?case by simp
next
  case (Cons item rest)
  show ?case
  proof (cases "item_iter item")
    case None
    from Cons.IH [of "Suc pos" "vm\<lparr>iterStack := (iterStack vm)[pos := zeroItem]\<rparr>"]
    show ?thesis using None by simp
  next
    case (Some it)
    from nested_close_keeps [OF assms, of k "ctx vm" it vm]
    obtain ex v1 where n: "vm_try (Suc k) R (ctx vm) (returnIter R it) vm = Some ([], Caught ex v1)"
        "length (iterStack v1) = length (iterStack vm)" "sp v1 = sp vm"
        "length (refStack vm) \<le> length (refStack v1)"
      by blast
    from Cons.IH [of "Suc pos" "v1\<lparr>iterStack := (iterStack v1)[pos := zeroItem]\<rparr>"]
    obtain v2 where
      "closeIters (\<lambda>it v. vm_try (Suc k) R (ctx v) (returnIter R it) v) (Suc pos) rest
            (v1\<lparr>iterStack := (iterStack v1)[pos := zeroItem]\<rparr>)
         = Some (map Close (open_iters rest), Returns v2)"
      "length (iterStack v2) = length (iterStack v1)" "sp v2 = sp v1"
      "length (refStack v1) \<le> length (refStack v2)"
      by auto
    with n Some show ?thesis by simp
  qed
qed

lemma vm_try_unfold_panic:
  assumes "body vm = Panics x v" and "length (iterStack vm) \<le> length (iterStack v)"
  shows "vm_try (Suc k) R c body vm =
     (case closeIters (\<lambda>it v. vm_try k R (ctx v) (returnIter R it) v) (length (iterStack vm))
             (drop (length (iterStack vm)) (iterStack v))
             ((restoreCtx (saveCtx vm (zeroCtx\<lparr>c_ctx := c\<rparr>))
                (v\<lparr>callStack := take (length (callStack vm)) (callStack v)\<rparr>))\<lparr>sp := sp vm\<rparr>) of
        None \<Rightarrow> None
      | Some (tr, Panics p vm2) \<Rightarrow> Some (tr, Repanics p vm2)
      | Some (tr, Returns vm2) \<Rightarrow>
          (let vm3 = vm2\<lparr>iterStack := take (length (iterStack vm)) (iterStack vm2)\<rparr>
           in if length (refStack vm3) < length (refStack vm)
              then Some (tr, Repanics sliceOutOfRange vm3)
              else
                (let vm4 = vm3\<lparr>refStack := take (length (refStack vm)) (refStack vm3)\<rparr>
                 in case recovered R x of
                      Inl p \<Rightarrow> Some (tr, Repanics p vm4)
                    | Inr ex \<Rightarrow> Some (tr, Caught (Some ex) vm4))))"
  using assms by (simp add: Let_def restoreCtx_def)

lemma vm_try_catches:
  assumes "orderlyClose R" and "closeKeepsStacks R" and "body vm = Panics x v"
    and "recovered R x = Inr e"
    and "length (iterStack vm) \<le> length (iterStack v)"
    and "length (refStack vm) \<le> length (refStack v)"
  shows "\<exists>tr v'. vm_try (Suc (Suc k)) R c body vm = Some (tr, Caught (Some e) v') \<and> sp v' = sp vm"
proof -
  define vm1 where "vm1 = (restoreCtx (saveCtx vm (zeroCtx\<lparr>c_ctx := c\<rparr>))
          (v\<lparr>callStack := take (length (callStack vm)) (callStack v)\<rparr>))\<lparr>sp := sp vm\<rparr>"
  have s1: "sp vm1 = sp vm" and r1: "refStack vm1 = refStack v"
    by (simp_all add: vm1_def restoreCtx_def)
  from closeIters_keeps [OF assms(1,2), of k "length (iterStack vm)"
                           "drop (length (iterStack vm)) (iterStack v)" vm1]
  obtain v2 where cl: "closeIters (\<lambda>it v. vm_try (Suc k) R (ctx v) (returnIter R it) v)
             (length (iterStack vm)) (drop (length (iterStack vm)) (iterStack v)) vm1
               = Some (map Close (open_iters (drop (length (iterStack vm)) (iterStack v))), Returns v2)"
      and k2: "sp v2 = sp vm1" "length (refStack vm1) \<le> length (refStack v2)"
    by blast
  have "\<not> length (refStack v2) < length (refStack vm)"
    using k2(2) r1 assms(6) by simp
  then show ?thesis
    unfolding vm_try_unfold_panic [where body = body and vm = vm and x = x and v = v, OF assms(3,5)] vm1_def [symmetric] cl
    using assms(4) k2(1) s1 by (simp add: Let_def)
qed

lemma vm_try_repanics:
  assumes "orderlyClose R" and "body vm = Panics x v" and "recovered R x = Inl p"
  shows "\<exists>tr p' v'. vm_try (Suc (Suc k)) R c body vm = Some (tr, Repanics p' v')
            \<and> set tr \<subseteq> range Close"
proof (cases "length (iterStack vm) \<le> length (iterStack v)")
  case False
  then have "vm_try (Suc (Suc k)) R c body vm =
      Some ([], Repanics sliceOutOfRange
        ((restoreCtx (saveCtx vm (zeroCtx\<lparr>c_ctx := c\<rparr>))
                (v\<lparr>callStack := take (length (callStack vm)) (callStack v)\<rparr>))\<lparr>sp := sp vm\<rparr>))"
    using assms(2) by (simp add: Let_def restoreCtx_def)
  then show ?thesis by simp
next
  case True
  define vm1 where "vm1 = (restoreCtx (saveCtx vm (zeroCtx\<lparr>c_ctx := c\<rparr>))
          (v\<lparr>callStack := take (length (callStack vm)) (callStack v)\<rparr>))\<lparr>sp := sp vm\<rparr>"
  from closeIters_trace [OF assms(1), of k "length (iterStack vm)"
                           "drop (length (iterStack vm)) (iterStack v)" vm1]
  obtain v2 where cl: "closeIters (\<lambda>it v. vm_try (Suc k) R (ctx v) (returnIter R it) v)
             (length (iterStack vm)) (drop (length (iterStack vm)) (iterStack v)) vm1
               = Some (map Close (open_iters (drop (length (iterStack vm)) (iterStack v))), Returns v2)"
    by blast
  show ?thesis
    unfolding vm_try_unfold_panic [where body = body and vm = vm and x = x and v = v, OF assms(2) True] vm1_def [symmetric] cl
    using assms(3) by (auto simp: Let_def)
qed

lemma scriptCompletion_Panics:
  assumes "scriptCompletion R v" and "run R v = Panics x v'"
  shows "(\<exists>e. recovered R x = Inr e) \<and> length (iterStack v) \<le> length (iterStack v')
           \<and> length (refStack v) \<le> length (refStack v')"
  using assms by (simp add: scriptCompletion_def)

lemma runTry_completes:
  assumes "orderlyClose R" and "closeKeepsStacks R" and "scriptCompletion R v"
  shows "\<exists>tr ex v'. runTry (Suc (Suc k)) R c v = Some (tr, Caught ex v')"
proof (cases "run R v")
  case (Returns v')
  then show ?thesis by (simp add: runTry_def Let_def)
next
  case (Panics x v')
  from scriptCompletion_Panics [OF assms(3) Panics]
  obtain e where h: "recovered R x = Inr e" "length (iterStack v) \<le> length (iterStack v')"
      "length (refStack v) \<le> length (refStack v')"
    by blast
  from vm_try_catches [where body = "run R" and vm = v and x = x and v = v' and e = e
                         and R = R and k = k and c = c, OF assms(1,2) Panics h]
  show ?thesis unfolding runTry_def by blast
qed

lemma try_catch_part_uncaught_general:
  assumes "orderlyClose R" and "closeKeepsStacks R"
    and "run R (vm\<lparr>pc := pc vm + 1\<rparr>) = Panics x v" and "recovered R x = Inr e"
    and "length (iterStack vm) \<le> length (iterStack v)"
    and "length (refStack vm) \<le> length (refStack v)"
    and "catchOffset t \<le> 0"
  shows "\<exists>tr v1. try_catch_part (Suc (Suc k)) R t vm = Some (tr, Caught (Some e) v1)"
proof -
  from vm_try_catches [where body = "run R" and vm = "vm\<lparr>pc := pc vm + 1\<rparr>" and x = x and v = v
                         and e = e and R = R and k = k and c = "ctx vm", OF assms(1,2,3,4)]
       assms(5,6)
  obtain tr v1 where "vm_try (Suc (Suc k)) R (ctx vm) (run R) (vm\<lparr>pc := pc vm + 1\<rparr>)
                        = Some (tr, Caught (Some e) v1)"
    by auto
  with assms(7) have "try_catch_part (Suc (Suc k)) R t vm = Some (RunTry # tr, Caught (Some e) v1)"
    unfolding try_catch_part_def runTry_def Let_def by simp
  then show ?thesis by blast
qed

lemma try_catch_part_completes:
  assumes "orderlyClose R" and "closeKeepsStacks R" and "0 \<le> sp vm"
    and "\<forall>v1. 0 < catchOffset t \<and> pc v1 = pc vm + catchOffset t \<longrightarrow> scriptCompletion R v1"
    and "scriptCompletion R (vm\<lparr>pc := pc vm + 1\<rparr>)"
  shows "\<exists>tr ex v1. try_catch_part (Suc (Suc k)) R t vm = Some (tr, Caught ex v1)"
proof (cases "run R (vm\<lparr>pc := pc vm + 1\<rparr>)")
  case (Returns v)
  then have "try_catch_part (Suc (Suc k)) R t vm = Some ([RunTry], Caught None v)"
    by (simp add: try_catch_part_def runTry_def Let_def)
  then show ?thesis by blast
next
  case (Panics x v)
  from scriptCompletion_Panics [OF assms(5) Panics]
  obtain e where h: "recovered R x = Inr e" "length (iterStack vm) \<le> length (iterStack v)"
      "length (refStack vm) \<le> length (refStack v)"
    by auto
  from vm_try_catches [where body = "run R" and vm = "vm\<lparr>pc := pc vm + 1\<rparr>" and x = x and v = v
                         and e = e and R = R and k = k and c = "ctx vm", OF assms(1,2) Panics h(1)]
       h(2,3)
  obtain tr1 v1 where first: "vm_try (Suc (Suc k)) R (ctx vm) (run R) (vm\<lparr>pc := pc vm + 1\<rparr>)
                        = Some (tr1, Caught (Some e) v1)"
      and sp1: "sp v1 = sp vm"
    by auto
  show ?thesis
  proof (cases "catchOffset t > 0")
    case False
    with first have "try_catch_part (Suc (Suc k)) R t vm = Some (RunTry # tr1, Caught (Some e) v1)"
      unfolding try_catch_part_def runTry_def Let_def by simp
    then show ?thesis by blast
  next
    case True
    have "\<exists>v2. push (v1\<lparr>pc := pc vm + catchOffset t\<rparr>) (Some (ex_val e)) = Returns v2
            \<and> pc v2 = pc vm + catchOffset t"
      using assms(3) sp1 by (simp add: push_def)
    then obtain v2 where p: "push (v1\<lparr>pc := pc vm + catchOffset t\<rparr>) (Some (ex_val e)) = Returns v2"
        and pc2: "pc v2 = pc vm + catchOffset t"
      by blast
    from assms(4) pc2 True have "scriptCompletion R v2" by blast
    from runTry_completes [OF assms(1,2) this, of k "ctx v2"]
    obtain tr2 ex2 v3 where second: "runTry (Suc (Suc k)) R (ctx v2) v2 = Some (tr2, Caught ex2 v3)"
      by blast
    have "try_catch_part (Suc (Suc k)) R t vm = Some (RunTry # tr1 @ RunCatch # tr2, Caught ex2 v3)"
      using first p second True
      unfolding try_catch_part_def Let_def runTry_def [of "Suc (Suc k)" R "ctx vm"]
      by simp
    then show ?thesis by blast
  qed
qed

lemma try_catch_part_uncatchable:
  assumes "orderlyClose R" and "run R (vm\<lparr>pc := pc vm + 1\<rparr>) = Panics x v"
    and "recovered R x = Inl p"
  shows "\<exists>tr p' v'. try_catch_part (Suc (Suc k)) R t vm = Some (tr, Repanics p' v')"
proof -
  from vm_try_repanics [where body = "run R" and vm = "vm\<lparr>pc := pc vm + 1\<rparr>" and x = x and v = v
                          and p = p and R = R and k = k and c = "ctx vm", OF assms]
  obtain tr p' v' where "vm_try (Suc (Suc k)) R (ctx vm) (run R) (vm\<lparr>pc := pc vm + 1\<rparr>)
                           = Some (tr, Repanics p' v')"
    by blast
  then have "try_catch_part (Suc (Suc k)) R t vm = Some (RunTry # tr, Repanics p' v')"
    unfolding try_catch_part_def runTry_def Let_def by simp
  then show ?thesis by blast
qed

lemma leavesEarly_run:
  assumes "leavesEarly R v"
  shows "\<exists>v' P. run R v = Returns v' \<and> prg v' = Some P \<and> 0 \<le> pc v'
           \<and> pc v' < int (length (code P)) \<and> code P ! nat (pc v') \<noteq> retFinally"
  using assms by (auto simp: leavesEarly_def split: outcome.splits option.splits)

lemma reachesEnd_run:
  assumes "reachesEnd R v"
  shows "\<exists>v' P. run R v = Returns v' \<and> prg v' = Some P \<and> 0 \<le> pc v'
           \<and> pc v' < int (length (code P)) \<and> code P ! nat (pc v') = retFinally"
  using assms by (auto simp: reachesEnd_def split: outcome.splits option.splits)

lemma try_exec_leaves_early:
  assumes "0 < finallyOffset t" and "try_catch_part k R t vm = Some (tr, Caught ex v1)"
    and "leavesEarly R (v1\<lparr>pc := pc vm + finallyOffset t\<rparr>)"
  shows "\<exists>v4. try_exec k R t vm = Some (tr @ [RunFinally], Returns (v4\<lparr>halt := False\<rparr>))
           \<and> run R (v1\<lparr>pc := pc vm + finallyOffset t\<rparr>) = Returns v4"
proof -
  from leavesEarly_run [OF assms(3)]
  obtain v4 P where h: "run R (v1\<lparr>pc := pc vm + finallyOffset t\<rparr>) = Returns v4" "prg v4 = Some P"
      "0 \<le> pc v4" "pc v4 < int (length (code P))" "code P ! nat (pc v4) \<noteq> retFinally"
    by blast
  have "finally_part R t (pc vm) ex v1 = ([RunFinally], Returns (v4\<lparr>halt := False\<rparr>))"
    using finally_part_early_exit [OF assms(1) h(1-4), of ex] h(5) by simp
  with assms(2) h(1) show ?thesis by (simp add: try_exec_def)
qed

lemma try_exec_reaches_end:
  assumes "0 < finallyOffset t" and "try_catch_part k R t vm = Some (tr, Caught (Some e) v1)"
    and "reachesEnd R (v1\<lparr>pc := pc vm + finallyOffset t\<rparr>)"
  shows "\<exists>v4. try_exec k R t vm =
                Some (tr @ [RunFinally],
                      Panics (thrownException (ex_val e)) (v4\<lparr>pc := - 1, halt := False\<rparr>))
           \<and> run R (v1\<lparr>pc := pc vm + finallyOffset t\<rparr>) = Returns v4"
proof -
  from reachesEnd_run [OF assms(3)]
  obtain v4 P where h: "run R (v1\<lparr>pc := pc vm + finallyOffset t\<rparr>) = Returns v4" "prg v4 = Some P"
      "0 \<le> pc v4" "pc v4 < int (length (code P))" "code P ! nat (pc v4) = retFinally"
    by blast
  have "finally_part R t (pc vm) (Some e) v1 =
          ([RunFinally], Panics (thrownException (ex_val e)) (v4\<lparr>pc := - 1, halt := False\<rparr>))"
    using finally_part_early_exit [OF assms(1) h(1-4), of "Some e"] h(5)
    by (simp add: try_end_def)
  with assms(2) h(1) show ?thesis by (simp add: try_exec_def)
qed

text \<open>
  Claim C1, as the code has it.  Take a try-region with a configured finally offset, at a
  machine with a non-negative stack pointer, closed iterators that behave (\<open>orderlyClose\<close>,
  \<open>closeKeepsStacks\<close>), and a catch block, if one is configured, that completes normally or
  by a throw that \<^verbatim>\<open>vm.try\<close> catches.  Two levels of nested \<^verbatim>\<open>vm.try\<close> suffice.
  \<^item> When the try block completes normally or by a throw that \<^verbatim>\<open>vm.try\<close> catches (which
    the catch block then catches, or which stays pending), \<^verbatim>\<open>try.exec\<close> runs the finally
    block exactly once.
  \<^item> When the try block is left by a condition that \<^verbatim>\<open>vm.try\<close> does not catch (an
    interrupt, an uncatchable exception, any other Go panic), \<^verbatim>\<open>vm.try\<close> panics again,
    \<^verbatim>\<open>try.exec\<close> is left with it and the finally block is not run.
  \<^item> When the finally block stops at an instruction other than its end marker
    \<^verbatim>\<open>retFinally\<close> (a break, continue or return out of the block), \<^verbatim>\<open>try.exec\<close> returns in
    the state the finally block left: a pending exception is dropped.  With an uncaught throw
    pending and the finally block reaching its end marker, the exception is raised again.
\<close>

theorem finally_block_execution:
  assumes "0 < finallyOffset t" and "orderlyClose R" and "closeKeepsStacks R" and "0 \<le> sp vm"
    and "\<forall>v1. 0 < catchOffset t \<and> pc v1 = pc vm + catchOffset t \<longrightarrow> scriptCompletion R v1"
  shows "(scriptCompletion R (vm\<lparr>pc := pc vm + 1\<rparr>) \<longrightarrow>
            (\<exists>tr r. try_exec (Suc (Suc k)) R t vm = Some (tr, r) \<and> count_list tr RunFinally = 1))
       \<and> (\<forall>x v p. run R (vm\<lparr>pc := pc vm + 1\<rparr>) = Panics x v \<and> recovered R x = Inl p \<longrightarrow>
            (\<exists>tr p' v'. try_exec (Suc (Suc k)) R t vm = Some (tr, Panics p' v')
                \<and> count_list tr RunFinally = 0))
       \<and> (scriptCompletion R (vm\<lparr>pc := pc vm + 1\<rparr>)
            \<and> (\<forall>v1. pc v1 = pc vm + finallyOffset t \<longrightarrow> leavesEarly R v1) \<longrightarrow>
            (\<exists>tr v1 v4. try_exec (Suc (Suc k)) R t vm = Some (tr, Returns (v4\<lparr>halt := False\<rparr>))
                \<and> pc v1 = pc vm + finallyOffset t \<and> run R v1 = Returns v4
                \<and> count_list tr RunFinally = 1))
       \<and> (\<forall>x v e. run R (vm\<lparr>pc := pc vm + 1\<rparr>) = Panics x v \<and> recovered R x = Inr e
              \<and> length (iterStack vm) \<le> length (iterStack v)
              \<and> length (refStack vm) \<le> length (refStack v) \<and> catchOffset t \<le> 0 \<longrightarrow>
            ((\<forall>v1. pc v1 = pc vm + finallyOffset t \<longrightarrow> leavesEarly R v1) \<longrightarrow>
               (\<exists>tr v4. try_exec (Suc (Suc k)) R t vm = Some (tr, Returns (v4\<lparr>halt := False\<rparr>))))
            \<and> ((\<forall>v1. pc v1 = pc vm + finallyOffset t \<longrightarrow> reachesEnd R v1) \<longrightarrow>
               (\<exists>tr v4. try_exec (Suc (Suc k)) R t vm =
                   Some (tr, Panics (thrownException (ex_val e)) (v4\<lparr>pc := - 1, halt := False\<rparr>)))))"
proof -
  have a: "scriptCompletion R (vm\<lparr>pc := pc vm + 1\<rparr>) \<longrightarrow>
            (\<exists>tr r. try_exec (Suc (Suc k)) R t vm = Some (tr, r) \<and> count_list tr RunFinally = 1)"
  proof
    assume sc: "scriptCompletion R (vm\<lparr>pc := pc vm + 1\<rparr>)"
    from try_catch_part_completes [OF assms(2,3,4,5) sc, of k]
    obtain tr ex v1 where "try_catch_part (Suc (Suc k)) R t vm = Some (tr, Caught ex v1)"
      by blast
    from finally_after_try_catch [OF assms(1) this]
    show "\<exists>tr r. try_exec (Suc (Suc k)) R t vm = Some (tr, r) \<and> count_list tr RunFinally = 1"
      by blast
  qed
  have b: "\<forall>x v p. run R (vm\<lparr>pc := pc vm + 1\<rparr>) = Panics x v \<and> recovered R x = Inl p \<longrightarrow>
            (\<exists>tr p' v'. try_exec (Suc (Suc k)) R t vm = Some (tr, Panics p' v')
                \<and> count_list tr RunFinally = 0)"
  proof (intro allI impI, elim conjE)
    fix x v p
    assume h: "run R (vm\<lparr>pc := pc vm + 1\<rparr>) = Panics x v" "recovered R x = Inl p"
    from try_catch_part_uncatchable [OF assms(2) h, of k t]
    obtain tr p' v' where part: "try_catch_part (Suc (Suc k)) R t vm = Some (tr, Repanics p' v')"
      by blast
    have "RunFinally \<notin> set tr" using try_catch_part_events [OF part] .
    then have "count_list tr RunFinally = 0" by (simp add: count_list_0_iff)
    moreover have "try_exec (Suc (Suc k)) R t vm = Some (tr, Panics p' v')"
      using part by (simp add: try_exec_def)
    ultimately show "\<exists>tr p' v'. try_exec (Suc (Suc k)) R t vm = Some (tr, Panics p' v')
                \<and> count_list tr RunFinally = 0"
      by blast
  qed
  have c: "scriptCompletion R (vm\<lparr>pc := pc vm + 1\<rparr>)
            \<and> (\<forall>v1. pc v1 = pc vm + finallyOffset t \<longrightarrow> leavesEarly R v1) \<longrightarrow>
            (\<exists>tr v1 v4. try_exec (Suc (Suc k)) R t vm = Some (tr, Returns (v4\<lparr>halt := False\<rparr>))
                \<and> pc v1 = pc vm + finallyOffset t \<and> run R v1 = Returns v4
                \<and> count_list tr RunFinally = 1)"
  proof (intro impI, elim conjE)
    assume sc: "scriptCompletion R (vm\<lparr>pc := pc vm + 1\<rparr>)"
      and le: "\<forall>v1. pc v1 = pc vm + finallyOffset t \<longrightarrow> leavesEarly R v1"
    from try_catch_part_completes [OF assms(2,3,4,5) sc, of k]
    obtain tr ex v1 where part: "try_catch_part (Suc (Suc k)) R t vm = Some (tr, Caught ex v1)"
      by blast
    have "leavesEarly R (v1\<lparr>pc := pc vm + finallyOffset t\<rparr>)" using le by simp
    from try_exec_leaves_early [OF assms(1) part this]
    obtain v4 where r: "try_exec (Suc (Suc k)) R t vm
                          = Some (tr @ [RunFinally], Returns (v4\<lparr>halt := False\<rparr>))"
        "run R (v1\<lparr>pc := pc vm + finallyOffset t\<rparr>) = Returns v4"
      by blast
    have "count_list (tr @ [RunFinally]) RunFinally = 1"
      using try_catch_part_events [OF part] by (simp add: count_list_0_iff)
    with r show "\<exists>tr v1 v4. try_exec (Suc (Suc k)) R t vm = Some (tr, Returns (v4\<lparr>halt := False\<rparr>))
                \<and> pc v1 = pc vm + finallyOffset t \<and> run R v1 = Returns v4
                \<and> count_list tr RunFinally = 1"
      by (intro exI [of _ "tr @ [RunFinally]"] exI [of _ "v1\<lparr>pc := pc vm + finallyOffset t\<rparr>"]
            exI [of _ v4]) simp
  qed
  have d: "\<forall>x v e. run R (vm\<lparr>pc := pc vm + 1\<rparr>) = Panics x v \<and> recovered R x = Inr e
              \<and> length (iterStack vm) \<le> length (iterStack v)
              \<and> length (refStack vm) \<le> length (refStack v) \<and> catchOffset t \<le> 0 \<longrightarrow>
            ((\<forall>v1. pc v1 = pc vm + finallyOffset t \<longrightarrow> leavesEarly R v1) \<longrightarrow>
               (\<exists>tr v4. try_exec (Suc (Suc k)) R t vm = Some (tr, Returns (v4\<lparr>halt := False\<rparr>))))
            \<and> ((\<forall>v1. pc v1 = pc vm + finallyOffset t \<longrightarrow> reachesEnd R v1) \<longrightarrow>
               (\<exists>tr v4. try_exec (Suc (Suc k)) R t vm =
                   Some (tr, Panics (thrownException (ex_val e)) (v4\<lparr>pc := - 1, halt := False\<rparr>))))"
  proof (intro allI impI, elim conjE)
    fix x v e
    assume h: "run R (vm\<lparr>pc := pc vm + 1\<rparr>) = Panics x v" "recovered R x = Inr e"
      "length (iterStack vm) \<le> length (iterStack v)" "length (refStack vm) \<le> length (refStack v)"
      "catchOffset t \<le> 0"
    from try_catch_part_uncaught_general [OF assms(2,3) h, of k]
    obtain tr v1 where part: "try_catch_part (Suc (Suc k)) R t vm = Some (tr, Caught (Some e) v1)"
      by blast
    have e1: "(\<forall>v1. pc v1 = pc vm + finallyOffset t \<longrightarrow> leavesEarly R v1) \<longrightarrow>
               (\<exists>tr v4. try_exec (Suc (Suc k)) R t vm = Some (tr, Returns (v4\<lparr>halt := False\<rparr>)))"
    proof
      assume "\<forall>v1. pc v1 = pc vm + finallyOffset t \<longrightarrow> leavesEarly R v1"
      then have "leavesEarly R (v1\<lparr>pc := pc vm + finallyOffset t\<rparr>)" by simp
      from try_exec_leaves_early [OF assms(1) part this]
      show "\<exists>tr v4. try_exec (Suc (Suc k)) R t vm = Some (tr, Returns (v4\<lparr>halt := False\<rparr>))"
        by blast
    qed
    have e2: "(\<forall>v1. pc v1 = pc vm + finallyOffset t \<longrightarrow> reachesEnd R v1) \<longrightarrow>
               (\<exists>tr v4. try_exec (Suc (Suc k)) R t vm =
                   Some (tr, Panics (thrownException (ex_val e)) (v4\<lparr>pc := - 1, halt := False\<rparr>)))"
    proof
      assume "\<forall>v1. pc v1 = pc vm + finallyOffset t \<longrightarrow> reachesEnd R v1"
      then have "reachesEnd R (v1\<lparr>pc := pc vm + finallyOffset t\<rparr>)" by simp
      from try_exec_reaches_end [OF assms(1) part this]
      show "\<exists>tr v4. try_exec (Suc (Suc k)) R t vm =
                   Some (tr, Panics (thrownException (ex_val e)) (v4\<lparr>pc := - 1, halt := False\<rparr>))"
        by blast
    qed
    from e1 e2 show "((\<forall>v1. pc v1 = pc vm + finallyOffset t \<longrightarrow> leavesEarly R v1) \<longrightarrow>
               (\<exists>tr v4. try_exec (Suc (Suc k)) R t vm = Some (tr, Returns (v4\<lparr>halt := False\<rparr>))))
            \<and> ((\<forall>v1. pc v1 = pc vm + finallyOffset t \<longrightarrow> reachesEnd R v1) \<longrightarrow>
               (\<exists>tr v4. try_exec (Suc (Suc k)) R t vm =
                   Some (tr, Panics (thrownException (ex_val e)) (v4\<lparr>pc := - 1, halt := False\<rparr>))))"
      by blast
  qed
  from a b c d show ?thesis by blast
qed

theorem finally_block_execution_witness:
  "0 < finallyOffset exampleTry
   \<and> orderlyClose exampleTryRuntime
   \<and> closeKeepsStacks exampleTryRuntime
   \<and> run exampleTryRuntime (exampleTryVm\<lparr>pc := pc exampleTryVm + 1\<rparr>)
       = Panics (thrownValue (valueInt 7)) (exampleTryVm\<lparr>pc := 1\<rparr>)
   \<and> try_exec (Suc (Suc 0)) exampleTryRuntime exampleTry exampleTryVm
       = Some ([RunTry, RunFinally], Returns (exampleTryVm\<lparr>pc := 5\<rparr>))
   \<and> count_list [RunTry, RunFinally] RunFinally = 1"
proof -
  have h1: "0 < finallyOffset exampleTry"
    by (simp add: exampleTry_def)
  have h2: "orderlyClose exampleTryRuntime"
    by (simp add: orderlyClose_def exampleTryRuntime_def exampleRuntime_def)
  have h3: "closeKeepsStacks exampleTryRuntime"
    by (simp add: closeKeepsStacks_def exampleTryRuntime_def exampleRuntime_def)
  have h4: "0 \<le> sp exampleTryVm"
    by (simp add: exampleTryVm_def exampleVm_def)
  have h5: "\<forall>v1. 0 < catchOffset exampleTry \<and> pc v1 = pc exampleTryVm + catchOffset exampleTry
              \<longrightarrow> scriptCompletion exampleTryRuntime v1"
    by (simp add: exampleTry_def)
  have r: "run exampleTryRuntime (exampleTryVm\<lparr>pc := pc exampleTryVm + 1\<rparr>)
             = Panics (thrownValue (valueInt 7)) (exampleTryVm\<lparr>pc := 1\<rparr>)"
    by (simp add: exampleTryRuntime_def exampleRuntime_def exampleRun_def exampleTryVm_def
          exampleVm_def)
  have sc: "scriptCompletion exampleTryRuntime (exampleTryVm\<lparr>pc := pc exampleTryVm + 1\<rparr>)"
    by (simp add: scriptCompletion_def r)
  have ev: "try_exec (Suc (Suc 0)) exampleTryRuntime exampleTry exampleTryVm
       = Some ([RunTry, RunFinally], Returns (exampleTryVm\<lparr>pc := 5\<rparr>))"
    by (simp add: try_exec_def try_catch_part_def finally_part_def try_end_def runTry_def Let_def
          exampleTryRuntime_def exampleRuntime_def exampleRun_def exampleTry_def exampleTryVm_def
          exampleVm_def saveCtx_def restoreCtx_def zeroCtx_def exampleProgram_def)
  from finally_block_execution [OF h1 h2 h3 h4 h5, of 0] sc
  obtain tr r' where t: "try_exec (Suc (Suc 0)) exampleTryRuntime exampleTry exampleTryVm = Some (tr, r')"
      and c: "count_list tr RunFinally = 1"
    by blast
  from t ev have "tr = [RunTry, RunFinally]" by simp
  with c have "count_list [RunTry, RunFinally] RunFinally = 1" by (rule subst [where P = "\<lambda>u. count_list u RunFinally = 1", rotated])
  with h1 h2 h3 r ev show ?thesis by blast
qed

text \<open>
  The claim as stated fails when the try block is left by an uncatchable condition: the
  finally block, although configured, is not run, and the condition leaves \<^verbatim>\<open>try.exec\<close>.
\<close>

theorem finally_skipped_counterexample:
  "0 < finallyOffset exampleTry
   \<and> run exampleUncatchableRuntime (exampleTryVm\<lparr>pc := pc exampleTryVm + 1\<rparr>)
       = Panics uncatchableException (exampleTryVm\<lparr>pc := 1\<rparr>)
   \<and> try_exec (Suc (Suc 0)) exampleUncatchableRuntime exampleTry exampleTryVm
       = Some ([RunTry], Panics uncatchableException (exampleTryVm\<lparr>pc := 1\<rparr>))
   \<and> count_list [RunTry] RunFinally = 0"
  by (simp add: try_exec_def try_catch_part_def finally_part_def try_end_def runTry_def Let_def
        exampleUncatchableRuntime_def exampleRuntime_def exampleUncatchableRun_def exampleTry_def
        exampleTryVm_def exampleVm_def saveCtx_def restoreCtx_def zeroCtx_def exampleProgram_def)

lemma vm_try_closes_tail:
  assumes "orderlyClose R" and "body vm = Panics x v"
    and "length (iterStack vm) \<le> length (iterStack v)"
  shows "\<exists>r. vm_try (Suc (Suc k)) R c body vm
               = Some (map Close (open_iters (drop (length (iterStack vm)) (iterStack v))), r)
           \<and> (case r of
                Caught ex v' \<Rightarrow> length (iterStack v') = length (iterStack vm)
              | Repanics p v' \<Rightarrow> length (iterStack v') = length (iterStack vm))"
proof -
  define vm1 where "vm1 = (restoreCtx (saveCtx vm (zeroCtx\<lparr>c_ctx := c\<rparr>))
          (v\<lparr>callStack := take (length (callStack vm)) (callStack v)\<rparr>))\<lparr>sp := sp vm\<rparr>"
  have i1: "iterStack vm1 = iterStack v"
    by (simp add: vm1_def restoreCtx_def)
  let ?n = "length (iterStack vm)"
  let ?tail = "drop ?n (iterStack v)"
  from closeIters_trace [OF assms(1), of k ?n ?tail vm1]
  obtain v2 where cl: "closeIters (\<lambda>it v. vm_try (Suc k) R (ctx v) (returnIter R it) v) ?n ?tail vm1
               = Some (map Close (open_iters ?tail), Returns v2)"
      and l2: "length (iterStack v2) = length (iterStack vm1)"
    by blast
  have unfold: "vm_try (Suc (Suc k)) R c body vm =
     (case closeIters (\<lambda>it v. vm_try (Suc k) R (ctx v) (returnIter R it) v) ?n
             (drop ?n (iterStack vm1)) vm1 of
        None \<Rightarrow> None
      | Some (tr, Panics p vm2) \<Rightarrow> Some (tr, Repanics p vm2)
      | Some (tr, Returns vm2) \<Rightarrow>
          (let vm3 = vm2\<lparr>iterStack := take ?n (iterStack vm2)\<rparr>
           in if length (refStack vm3) < length (refStack vm)
              then Some (tr, Repanics sliceOutOfRange vm3)
              else
                (let vm4 = vm3\<lparr>refStack := take (length (refStack vm)) (refStack vm3)\<rparr>
                 in case recovered R x of
                      Inl p \<Rightarrow> Some (tr, Repanics p vm4)
                    | Inr ex \<Rightarrow> Some (tr, Caught (Some ex) vm4))))"
    using assms(2,3) i1 unfolding vm1_def by (simp add: Let_def)
  have len: "length (take ?n (iterStack v2)) = ?n"
    using l2 i1 assms(3) by simp
  show ?thesis
    unfolding unfold i1 cl
    using len by (cases "recovered R x") (simp_all add: Let_def)
qed

lemma enumPopClose_closes:
  assumes "iterStack vm \<noteq> []" and "item_iter (last (iterStack vm)) = Some it"
  shows "enumPopClose_exec R vm =
           (case returnIter R it (vm\<lparr>iterStack := butlast (iterStack vm)\<rparr>) of
              Panics p v \<Rightarrow> ([Close it], Panics p v)
            | Returns v \<Rightarrow> ([Close it], Returns (v\<lparr>pc := pc v + 1\<rparr>)))"
  using assms by (simp add: enumPopClose_exec_def Let_def)

lemma count_list_Close:
  "count_list (map Close its) (Close i) = count_list its i"
  by (induction its) simp_all

text \<open>
  Claim C9.  The instruction that leaves a for-of loop early (\<^verbatim>\<open>enumPopClose\<close>, for a
  break) takes the record of the loop off the iterator stack and then calls the close
  operation \<^verbatim>\<open>returnIter\<close> of its iterator, once, whether that returns or raises; the
  record is off the stack by then, so no unwinding meets it again.  When a function run
  under \<^verbatim>\<open>vm.try\<close> panics, with any value (a script exception as well as an uncatchable
  condition), the unwinding calls the close operation of every iterator record that was
  opened above the saved depth of the iterator stack and is still open, once for each record
  on the stack and in the order of the stack, and then cuts the iterator stack back to the
  saved depth.  This holds when the close operations are orderly: each returns, or raises an
  error that \<^verbatim>\<open>vm.try\<close> catches, and leaves the stacks balanced.  Two levels of nested
  \<^verbatim>\<open>vm.try\<close> are enough for it.
\<close>

theorem iterator_closed_once:
  "(iterStack vm \<noteq> [] \<and> item_iter (last (iterStack vm)) = Some it \<longrightarrow>
      enumPopClose_exec R vm =
        (case returnIter R it (vm\<lparr>iterStack := butlast (iterStack vm)\<rparr>) of
           Panics p v \<Rightarrow> ([Close it], Panics p v)
         | Returns v \<Rightarrow> ([Close it], Returns (v\<lparr>pc := pc v + 1\<rparr>)))
      \<and> count_list (fst (enumPopClose_exec R vm)) (Close it) = 1)
   \<and> (orderlyClose R \<and> body vm = Panics x v1 \<and> length (iterStack vm) \<le> length (iterStack v1) \<longrightarrow>
      (\<exists>tr r. vm_try (Suc (Suc k)) R c body vm = Some (tr, r)
          \<and> tr = map Close (open_iters (drop (length (iterStack vm)) (iterStack v1)))
          \<and> (\<forall>i. count_list tr (Close i)
                    = count_list (open_iters (drop (length (iterStack vm)) (iterStack v1))) i)
          \<and> (case r of
                Caught ex v' \<Rightarrow> length (iterStack v') = length (iterStack vm)
              | Repanics p v' \<Rightarrow> length (iterStack v') = length (iterStack vm))))"
proof -
  have a: "iterStack vm \<noteq> [] \<and> item_iter (last (iterStack vm)) = Some it \<longrightarrow>
      enumPopClose_exec R vm =
        (case returnIter R it (vm\<lparr>iterStack := butlast (iterStack vm)\<rparr>) of
           Panics p v \<Rightarrow> ([Close it], Panics p v)
         | Returns v \<Rightarrow> ([Close it], Returns (v\<lparr>pc := pc v + 1\<rparr>)))
      \<and> count_list (fst (enumPopClose_exec R vm)) (Close it) = 1"
  proof (intro impI, elim conjE)
    assume h: "iterStack vm \<noteq> []" "item_iter (last (iterStack vm)) = Some it"
    note e = enumPopClose_closes [OF h, of R]
    have "count_list (fst (enumPopClose_exec R vm)) (Close it) = 1"
      unfolding e by (cases "returnIter R it (vm\<lparr>iterStack := butlast (iterStack vm)\<rparr>)") simp_all
    with e show "enumPopClose_exec R vm =
        (case returnIter R it (vm\<lparr>iterStack := butlast (iterStack vm)\<rparr>) of
           Panics p v \<Rightarrow> ([Close it], Panics p v)
         | Returns v \<Rightarrow> ([Close it], Returns (v\<lparr>pc := pc v + 1\<rparr>)))
      \<and> count_list (fst (enumPopClose_exec R vm)) (Close it) = 1"
      by blast
  qed
  have b: "orderlyClose R \<and> body vm = Panics x v1 \<and> length (iterStack vm) \<le> length (iterStack v1) \<longrightarrow>
      (\<exists>tr r. vm_try (Suc (Suc k)) R c body vm = Some (tr, r)
          \<and> tr = map Close (open_iters (drop (length (iterStack vm)) (iterStack v1)))
          \<and> (\<forall>i. count_list tr (Close i)
                    = count_list (open_iters (drop (length (iterStack vm)) (iterStack v1))) i)
          \<and> (case r of
                Caught ex v' \<Rightarrow> length (iterStack v') = length (iterStack vm)
              | Repanics p v' \<Rightarrow> length (iterStack v') = length (iterStack vm)))"
  proof (intro impI, elim conjE)
    assume h: "orderlyClose R" "body vm = Panics x v1" "length (iterStack vm) \<le> length (iterStack v1)"
    from vm_try_closes_tail [where body = body and vm = vm and x = x and v = v1 and R = R
                               and k = k and c = c] h
    obtain r where "vm_try (Suc (Suc k)) R c body vm
               = Some (map Close (open_iters (drop (length (iterStack vm)) (iterStack v1))), r)"
      "case r of
                Caught ex v' \<Rightarrow> length (iterStack v') = length (iterStack vm)
              | Repanics p v' \<Rightarrow> length (iterStack v') = length (iterStack vm)"
      by blast
    then show "\<exists>tr r. vm_try (Suc (Suc k)) R c body vm = Some (tr, r)
          \<and> tr = map Close (open_iters (drop (length (iterStack vm)) (iterStack v1)))
          \<and> (\<forall>i. count_list tr (Close i)
                    = count_list (open_iters (drop (length (iterStack vm)) (iterStack v1))) i)
          \<and> (case r of
                Caught ex v' \<Rightarrow> length (iterStack v') = length (iterStack vm)
              | Repanics p v' \<Rightarrow> length (iterStack v') = length (iterStack vm))"
      by (simp add: count_list_Close)
  qed
  from a b show ?thesis by blast
qed

theorem iterator_closed_once_witness:
  "enumPopClose_exec exampleRuntime (exampleVm\<lparr>iterStack := [exampleItem]\<rparr>)
     = ([Close 5], Returns (exampleVm\<lparr>pc := 1\<rparr>))
   \<and> orderlyClose exampleRuntime
   \<and> exampleBody exampleVm
       = Panics (thrownValue (valueInt 7)) (exampleVm\<lparr>iterStack := [exampleItem]\<rparr>)
   \<and> vm_try (Suc (Suc 0)) exampleRuntime 0 exampleBody exampleVm
       = Some ([Close 5], Caught (Some (Exception (valueInt 7))) exampleVm)"
proof -
  let ?vm = "exampleVm\<lparr>iterStack := [exampleItem]\<rparr>"
  have oc: "orderlyClose exampleRuntime"
    by (simp add: orderlyClose_def exampleRuntime_def)
  have bd: "exampleBody exampleVm = Panics (thrownValue (valueInt 7)) ?vm"
    by (simp add: exampleBody_def exampleVm_def)
  have pre: "iterStack ?vm \<noteq> [] \<and> item_iter (last (iterStack ?vm)) = Some 5"
    by (simp add: exampleItem_def)
  have 1: "enumPopClose_exec exampleRuntime ?vm = ([Close 5], Returns (exampleVm\<lparr>pc := 1\<rparr>))"
    using iterator_closed_once [where vm = ?vm and it = 5 and R = exampleRuntime] pre
    by (simp add: exampleRuntime_def exampleVm_def)
  have 2: "vm_try (Suc (Suc 0)) exampleRuntime 0 exampleBody exampleVm
       = Some ([Close 5], Caught (Some (Exception (valueInt 7))) exampleVm)"
    by (simp add: Let_def exampleBody_def exampleRuntime_def exampleVm_def exampleItem_def
          saveCtx_def restoreCtx_def zeroCtx_def zeroItem_def)
  from 1 oc bd 2 show ?thesis by blast
qed

end
